theory Spec2Isabelle
  imports Complex_Main "HOL-Library.Char_ord" "HOL-Library.List_Lexorder" "HOL-Library.Sublist"
begin

section \<open>The library functions the client calls\<close>

text \<open>
  The client (pipedrive.go) is a thin layer over Go's \<^verbatim>\<open>net/url\<close>,
  \<^verbatim>\<open>encoding/json\<close> and an HTTP transport. A Go string is a sequence of bytes, and so
  is a HOL \<^typ>\<open>string\<close>. The part of \<^verbatim>\<open>net/url\<close> that decides what
  \<^verbatim>\<open>authenticatedURL\<close> returns, the handling of the query string, is modelled as the
  library computes it; what the library does with the scheme, authority and path is out of
  the model (see \<open>url_Parse\<close>).
\<close>

subsection \<open>strings.Cut\<close>

definition cut_before :: "char \<Rightarrow> string \<Rightarrow> string" where
  "cut_before sep s = takeWhile (\<lambda>c. c \<noteq> sep) s"

definition cut_after :: "char \<Rightarrow> string \<Rightarrow> string" where
  "cut_after sep s = drop 1 (dropWhile (\<lambda>c. c \<noteq> sep) s)"

subsection \<open>url.QueryEscape and url.QueryUnescape\<close>

definition ishex :: "char \<Rightarrow> bool" where
  "ishex c \<longleftrightarrow>
     (CHR ''0'' \<le> c \<and> c \<le> CHR ''9'') \<or> (CHR ''a'' \<le> c \<and> c \<le> CHR ''f'') \<or>
     (CHR ''A'' \<le> c \<and> c \<le> CHR ''F'')"

definition unhex :: "char \<Rightarrow> nat" where
  "unhex c =
     (if CHR ''0'' \<le> c \<and> c \<le> CHR ''9'' then of_char c - of_char CHR ''0''
      else if CHR ''a'' \<le> c \<and> c \<le> CHR ''f'' then of_char c - of_char CHR ''a'' + 10
      else if CHR ''A'' \<le> c \<and> c \<le> CHR ''F'' then of_char c - of_char CHR ''A'' + 10
      else 0)"

text \<open>\<^verbatim>\<open>upperhex\<close> is indexed by a half byte, a number below 16.\<close>

definition upperhex :: "nat \<Rightarrow> char" where
  "upperhex n = ''0123456789ABCDEF'' ! n"

text \<open>\<^verbatim>\<open>shouldEscape(c, encodeQueryComponent)\<close>: letters, digits and \<^verbatim>\<open>-_.~\<close> stay, every
  other byte is escaped.\<close>

definition shouldEscape :: "char \<Rightarrow> bool" where
  "shouldEscape c \<longleftrightarrow>
     \<not> ((CHR ''a'' \<le> c \<and> c \<le> CHR ''z'') \<or> (CHR ''A'' \<le> c \<and> c \<le> CHR ''Z'') \<or>
        (CHR ''0'' \<le> c \<and> c \<le> CHR ''9'') \<or> c \<in> set ''-_.~'')"

definition escape_byte :: "char \<Rightarrow> string" where
  "escape_byte c =
     (if c = CHR '' '' then ''+''
      else if shouldEscape c
        then [CHR ''%'', upperhex (of_char c div 16), upperhex (of_char c mod 16)]
      else [c])"

definition QueryEscape :: "string \<Rightarrow> string" where
  "QueryEscape s = concat (map escape_byte s)"

text \<open>\<^verbatim>\<open>QueryUnescape\<close> fails (\<open>None\<close>) on a \<^verbatim>\<open>%\<close> that is not followed by two
  hexadecimal digits.\<close>

fun QueryUnescape :: "string \<Rightarrow> string option" where
  "QueryUnescape [] = Some []"
| "QueryUnescape (c # s) =
     (if c = CHR ''%'' then
        (case s of
           a # b # r \<Rightarrow>
             if ishex a \<and> ishex b
             then map_option ((#) (char_of (unhex a * 16 + unhex b))) (QueryUnescape r)
             else None
         | _ \<Rightarrow> None)
      else if c = CHR ''+'' then map_option ((#) CHR '' '') (QueryUnescape s)
      else map_option ((#) c) (QueryUnescape s))"

subsection \<open>url.Values\<close>

text \<open>\<^verbatim>\<open>Values\<close> is \<^verbatim>\<open>map[string][]string\<close>: an association list with one entry
  for each key.\<close>

type_synonym Values = "(string \<times> string list) list"

fun Values_Add :: "Values \<Rightarrow> string \<Rightarrow> string \<Rightarrow> Values" where
  "Values_Add [] key val = [(key, [val])]"
| "Values_Add ((k, vs) # m) key val =
     (if k = key then (k, vs @ [val]) # m else (k, vs) # Values_Add m key val)"

definition Values_Get :: "Values \<Rightarrow> string \<Rightarrow> string list" where
  "Values_Get m key = (case map_of m key of None \<Rightarrow> [] | Some vs \<Rightarrow> vs)"

text \<open>\<^verbatim>\<open>parseQuery\<close>: the segments between \<^verbatim>\<open>&\<close> from left to right; a segment with a
  \<^verbatim>\<open>;\<close>, an empty segment and a segment whose key or value does not unescape are
  skipped (\<^verbatim>\<open>Query()\<close> drops the error).\<close>

function parseQuery :: "Values \<Rightarrow> string \<Rightarrow> Values" where
  "parseQuery m query =
     (if query = [] then m
      else
        let key = cut_before CHR ''&'' query; rest = cut_after CHR ''&'' query in
        if CHR '';'' \<in> set key then parseQuery m rest
        else if key = [] then parseQuery m rest
        else
          (case QueryUnescape (cut_before CHR ''='' key) of
             None \<Rightarrow> parseQuery m rest
           | Some k \<Rightarrow>
               (case QueryUnescape (cut_after CHR ''='' key) of
                  None \<Rightarrow> parseQuery m rest
                | Some v \<Rightarrow> parseQuery (Values_Add m k v) rest)))"
  by pat_completeness auto
termination
proof -
  have shorter: "length (cut_after sep q) < length q" if "q \<noteq> []" for sep q
  proof -
    have "length (dropWhile (\<lambda>c. c \<noteq> sep) q) \<le> length q"
      by (rule length_dropWhile_le)
    with that show ?thesis
      by (cases q) (auto simp: cut_after_def)
  qed
  show ?thesis
    by (relation "measure (\<lambda>(m, q). length q)") (auto simp: shorter)
qed

text \<open>The pairs that \<open>parseQuery\<close> adds, in the order of the query string: the same
  loop, collecting the pairs.\<close>

function query_pairs :: "string \<Rightarrow> (string \<times> string) list" where
  "query_pairs query =
     (if query = [] then []
      else
        let key = cut_before CHR ''&'' query; rest = cut_after CHR ''&'' query in
        if CHR '';'' \<in> set key then query_pairs rest
        else if key = [] then query_pairs rest
        else
          (case QueryUnescape (cut_before CHR ''='' key) of
             None \<Rightarrow> query_pairs rest
           | Some k \<Rightarrow>
               (case QueryUnescape (cut_after CHR ''='' key) of
                  None \<Rightarrow> query_pairs rest
                | Some v \<Rightarrow> (k, v) # query_pairs rest)))"
  by pat_completeness auto
termination
proof -
  have shorter: "length (cut_after sep q) < length q" if "q \<noteq> []" for sep q
  proof -
    have "length (dropWhile (\<lambda>c. c \<noteq> sep) q) \<le> length q"
      by (rule length_dropWhile_le)
    with that show ?thesis
      by (cases q) (auto simp: cut_after_def)
  qed
  show ?thesis
    by (relation "measure length") (auto simp: shorter)
qed

text \<open>Adding a list of pairs to the values, one after the other.\<close>

definition add_pairs :: "Values \<Rightarrow> (string \<times> string) list \<Rightarrow> Values" where
  "add_pairs m ps = foldl (\<lambda>m (k, v). Values_Add m k v) m ps"

text \<open>\<^verbatim>\<open>Values.Encode\<close>: the keys sorted, and for each key its values in their order, as
  \<^verbatim>\<open>key=value\<close> joined by \<^verbatim>\<open>&\<close>.\<close>

definition encode_key :: "Values \<Rightarrow> string \<Rightarrow> string list" where
  "encode_key m k = map (\<lambda>v. QueryEscape k @ ''='' @ QueryEscape v) (Values_Get m k)"

fun join_amp :: "string list \<Rightarrow> string" where
  "join_amp [] = []"
| "join_amp [s] = s"
| "join_amp (s # t # ss) = s @ ''&'' @ join_amp (t # ss)"

definition Values_Encode :: "Values \<Rightarrow> string" where
  "Values_Encode m = join_amp (concat (map (encode_key m) (sort (map fst m))))"

text \<open>One \<^verbatim>\<open>key=value\<close> of the encoded query, and the pairs of \<open>Values_Encode\<close> in
  the order in which it writes them.\<close>

definition segment :: "string \<times> string \<Rightarrow> string" where
  "segment p = QueryEscape (fst p) @ ''='' @ QueryEscape (snd p)"

definition encoded_pairs :: "Values \<Rightarrow> (string \<times> string) list" where
  "encoded_pairs m = concat (map (\<lambda>k. map (Pair k) (Values_Get m k)) (sort (map fst m)))"

subsection \<open>url.URL\<close>

text \<open>
  Of a parsed URL the model keeps the text before the query (scheme, authority and path,
  as written), the query and the fragment. \<^verbatim>\<open>url.Parse\<close> cuts the fragment at the first
  \<^verbatim>\<open>#\<close>, rejects a control byte in what is left, and cuts the query at the first
  \<^verbatim>\<open>?\<close> (a lone final \<^verbatim>\<open>?\<close> sets \<^verbatim>\<open>ForceQuery\<close>). The library also validates
  and normalises scheme, host, port and path, and can fail there; the model does not, so
  a success of the model's \<open>url_Parse\<close> says how the query is handled when the library
  succeeds, and \<open>url_String\<close> prints the head and the fragment as they were
  written.
\<close>

record URL =
  Head :: string
  ForceQuery :: bool
  RawQuery :: string
  Fragment :: string

text \<open>The errors, by kind, each with its text. \<open>MalformedResponse\<close> is not an error
  value of the client: it stands for a run-time panic.\<close>

datatype error =
    InvalidArgument string
  | MalformedURL string
  | TransportError string
  | InvalidJSON string
  | MarshalError string
  | MalformedResponse
  | CreationFailed string

definition isCTL :: "char \<Rightarrow> bool" where
  "isCTL c \<longleftrightarrow> c < CHR '' '' \<or> c = CHR 0x7F"

definition url_Parse :: "string \<Rightarrow> error + URL" where
  "url_Parse rawURL =
     (let u = cut_before CHR ''#'' rawURL; frag = cut_after CHR ''#'' rawURL in
      if \<exists>c \<in> set u. isCTL c then Inl (MalformedURL rawURL)
      else if u \<noteq> [] \<and> last u = CHR ''?'' \<and> count_list u CHR ''?'' = 1
        then Inr \<lparr>Head = butlast u, ForceQuery = True, RawQuery = [], Fragment = frag\<rparr>
      else Inr \<lparr>Head = cut_before CHR ''?'' u, ForceQuery = False,
                RawQuery = cut_after CHR ''?'' u, Fragment = frag\<rparr>)"

definition url_Query :: "URL \<Rightarrow> Values" where
  "url_Query u = parseQuery [] (RawQuery u)"

definition url_String :: "URL \<Rightarrow> string" where
  "url_String u =
     Head u @ (if ForceQuery u \<or> RawQuery u \<noteq> [] then ''?'' @ RawQuery u else [])
            @ (if Fragment u \<noteq> [] then ''#'' @ Fragment u else [])"

subsection \<open>Values of type interface{}, encoding/json and the transport\<close>

text \<open>
  What \<^verbatim>\<open>json.Unmarshal\<close> stores in a \<^verbatim>\<open>map[string]interface{}\<close> is \<^verbatim>\<open>nil\<close>, a
  \<^verbatim>\<open>bool\<close>, a \<^verbatim>\<open>float64\<close>, a \<^verbatim>\<open>string\<close>, a \<^verbatim>\<open>[]interface{}\<close> or a
  \<^verbatim>\<open>map[string]interface{}\<close>; the client itself also stores \<^verbatim>\<open>int\<close> and
  \<^verbatim>\<open>[]string\<close> values in the maps it posts. A \<^verbatim>\<open>float64\<close> that comes from JSON is
  finite, and is modelled by its rational value.
\<close>

datatype gval =
    GNil
  | GBool bool
  | GFloat64 rat
  | GInt int
  | GString string
  | GStrings "string list"
  | GSlice "gval list"
  | GMap "string \<rightharpoonup> gval"

type_synonym gmap = "string \<rightharpoonup> gval"

text \<open>Indexing a map (also a nil map) at a missing key gives the zero value, \<^verbatim>\<open>nil\<close>.\<close>

definition index :: "gmap \<Rightarrow> string \<Rightarrow> gval" where
  "index m k = (case m k of None \<Rightarrow> GNil | Some v \<Rightarrow> v)"

text \<open>The type assertions \<^verbatim>\<open>.([]interface{})\<close>, \<^verbatim>\<open>.(map[string]interface{})\<close> and
  \<^verbatim>\<open>.(float64)\<close>, and the index \<^verbatim>\<open>[0]\<close>: \<open>None\<close> where Go panics.\<close>

definition asSlice :: "gval \<Rightarrow> gval list option" where
  "asSlice v = (case v of GSlice xs \<Rightarrow> Some xs | _ \<Rightarrow> None)"

definition asMap :: "gval \<Rightarrow> gmap option" where
  "asMap v = (case v of GMap m \<Rightarrow> Some m | _ \<Rightarrow> None)"

definition asFloat64 :: "gval \<Rightarrow> rat option" where
  "asFloat64 v = (case v of GFloat64 f \<Rightarrow> Some f | _ \<Rightarrow> None)"

definition elem0 :: "gval list \<Rightarrow> gval option" where
  "elem0 xs = (case xs of [] \<Rightarrow> None | x # _ \<Rightarrow> Some x)"

text \<open>The conversion \<^verbatim>\<open>int(f)\<close> of a \<^verbatim>\<open>float64\<close> to the 64-bit \<^verbatim>\<open>int\<close> drops the
  fraction (towards zero). Go leaves the result open when the value does not fit; amd64
  gives the least \<^verbatim>\<open>int64\<close>.\<close>

definition go_int :: "rat \<Rightarrow> int" where
  "go_int f =
     (let t = (if 0 \<le> f then \<lfloor>f\<rfloor> else \<lceil>f\<rceil>)
      in if - (2 ^ 63) \<le> t \<and> t < 2 ^ 63 then t else - (2 ^ 63))"

text \<open>
  \<^verbatim>\<open>Requestor\<close> is the interface of the HTTP client. A response is modelled by what
  reading its body to the end gives: the bytes, or the error of the read. Every operation
  calls \<^verbatim>\<open>Get\<close> at most once and then \<^verbatim>\<open>Post\<close> at most once, so a transport with
  state of its own is covered by the two functions it amounts to during that operation.
\<close>

record Response =
  Body :: "error + string"

record Requestor =
  Get :: "string \<Rightarrow> error + Response"
  Post :: "string \<Rightarrow> string \<Rightarrow> string \<Rightarrow> error + Response"

text \<open>The calls that reach the transport, in their order.\<close>

datatype call = is_GET: GET string | is_POST: POST string string string

text \<open>
  \<^verbatim>\<open>json.Unmarshal\<close> into a \<^verbatim>\<open>map[string]interface{}\<close>, \<^verbatim>\<open>json.Marshal\<close> of such a
  map and the \<^verbatim>\<open>%+v\<close> of \<^verbatim>\<open>fmt\<close> are library functions; the client is modelled over
  any three functions of their types. (Unmarshalling the JSON text \<^verbatim>\<open>null\<close> leaves the
  map nil: that is the empty map here.)
\<close>

record Codec =
  Unmarshal :: "string \<Rightarrow> error + gmap"
  Marshal :: "gmap \<Rightarrow> error + string"
  Sprint :: "gmap \<Rightarrow> string"

section \<open>The client\<close>

record Client =
  APIToken :: string
  BaseURL :: string
  DefaultUserID :: int
  httpClient :: Requestor

record Person =
  ID :: int
  OwnerID :: int
  OrganizationID :: int
  Name :: string
  Email :: "string list"
  Phone :: "string list"

record Organization =
  ID :: int
  Name :: string
  OwnerID :: int
  Fields :: gmap

record Deal =
  ID :: int
  Title :: string
  Value :: int
  UserID :: int
  PersonID :: int
  OrganizationID :: int
  Fields :: gmap

definition authenticatedURL :: "Client \<Rightarrow> string \<Rightarrow> error + URL" where
  "authenticatedURL c path =
     (case url_Parse (BaseURL c @ path) of
        Inl err \<Rightarrow> Inl err
      | Inr authedURL \<Rightarrow>
          let query = url_Query authedURL;
              query = Values_Add query ''api_token'' (APIToken c)
          in Inr (authedURL\<lparr>RawQuery := Values_Encode query\<rparr>))"

definition createEntitiy ::
  "Codec \<Rightarrow> Client \<Rightarrow> string \<Rightarrow> gmap \<Rightarrow> (error + gmap) \<times> call list" where
  "createEntitiy J c path bodyData =
     (case Marshal J bodyData of
        Inl err \<Rightarrow> (Inl err, [])
      | Inr postBody \<Rightarrow>
     (case authenticatedURL c path of
        Inl err \<Rightarrow> (Inl err, [])
      | Inr postURL \<Rightarrow>
     (case Post (httpClient c) (url_String postURL) ''application/json'' postBody of
        Inl err \<Rightarrow> (Inl err, [POST (url_String postURL) ''application/json'' postBody])
      | Inr postResp \<Rightarrow>
     (case Body postResp of
        Inl err \<Rightarrow> (Inl err, [POST (url_String postURL) ''application/json'' postBody])
      | Inr buf \<Rightarrow>
          (Unmarshal J buf, [POST (url_String postURL) ''application/json'' postBody])))))"

text \<open>\<^verbatim>\<open>data["data"].([]interface{})[0].(map[string]interface{})["id"].(float64)\<close>\<close>

definition found_id :: "gmap \<Rightarrow> rat option" where
  "found_id data =
     Option.bind (asSlice (index data ''data'')) (\<lambda>xs.
     Option.bind (elem0 xs) (\<lambda>x.
     Option.bind (asMap x) (\<lambda>m. asFloat64 (index m ''id''))))"

text \<open>\<^verbatim>\<open>data["data"].(map[string]interface{})["id"].(float64)\<close>\<close>

definition created_id :: "gmap \<Rightarrow> rat option" where
  "created_id data =
     Option.bind (asMap (index data ''data'')) (\<lambda>m. asFloat64 (index m ''id''))"

text \<open>The \<^verbatim>\<open>postStruct\<close> of \<^verbatim>\<open>FindOrCreateOrganization\<close>: the name, then every entry of
  \<^verbatim>\<open>org.Fields\<close>, then the default user.\<close>

definition organization_postStruct :: "Client \<Rightarrow> Organization \<Rightarrow> gmap" where
  "organization_postStruct c org =
     (let postStruct = [''name'' \<mapsto> GString (Organization.Name org)];
          postStruct = postStruct ++ Organization.Fields org
      in if DefaultUserID c \<noteq> 0 then postStruct(''owner_id'' \<mapsto> GInt (DefaultUserID c))
         else postStruct)"

text \<open>
  An operation returns the error (\<open>None\<close> for \<^verbatim>\<open>nil\<close>), the entity behind the pointer
  as the call leaves it, and the calls made. \<open>MalformedResponse\<close> stands for the run-time
  panic of a failed type assertion or of \<^verbatim>\<open>[0]\<close> on an empty slice.
\<close>

definition FindOrCreateOrganization ::
  "Codec \<Rightarrow> Client \<Rightarrow> Organization \<Rightarrow> error option \<times> Organization \<times> call list" where
  "FindOrCreateOrganization J c org =
     (case authenticatedURL c (''/organizations/find?term='' @ Organization.Name org) of
        Inl err \<Rightarrow> (Some err, org, [])
      | Inr authedURL \<Rightarrow>
     (case Get (httpClient c) (url_String authedURL) of
        Inl err \<Rightarrow> (Some err, org, [GET (url_String authedURL)])
      | Inr resp \<Rightarrow>
     (case Body resp of
        Inl err \<Rightarrow> (Some err, org, [GET (url_String authedURL)])
      | Inr buf \<Rightarrow>
     (case Unmarshal J buf of
        Inl err \<Rightarrow> (Some err, org, [GET (url_String authedURL)])
      | Inr data \<Rightarrow>
          if index data ''data'' \<noteq> GNil then
            (case found_id data of
               None \<Rightarrow> (Some MalformedResponse, org, [GET (url_String authedURL)])
             | Some f \<Rightarrow>
                 (None, org\<lparr>Organization.ID := go_int f\<rparr>, [GET (url_String authedURL)]))
          else
            (case createEntitiy J c ''/organizations'' (organization_postStruct c org) of
               (Inl err, calls) \<Rightarrow> (Some err, org, GET (url_String authedURL) # calls)
             | (Inr data', calls) \<Rightarrow>
                 if index data' ''data'' \<noteq> GNil then
                   (case created_id data' of
                      None \<Rightarrow>
                        (Some MalformedResponse, org, GET (url_String authedURL) # calls)
                    | Some f \<Rightarrow>
                        (None, org\<lparr>Organization.ID := go_int f\<rparr>,
                         GET (url_String authedURL) # calls))
                 else
                   (Some (CreationFailed (''Error creating Pipedrive org: '' @ buf)), org,
                    GET (url_String authedURL) # calls))))))"

definition person_postStruct :: "Client \<Rightarrow> Person \<Rightarrow> gmap" where
  "person_postStruct c newPerson =
     (let postStruct = [''name'' \<mapsto> GString (Person.Name newPerson),
                        ''email'' \<mapsto> GStrings (Email newPerson),
                        ''org_id'' \<mapsto> GInt (Person.OrganizationID newPerson)]
      in if DefaultUserID c \<noteq> 0 then postStruct(''owner_id'' \<mapsto> GInt (DefaultUserID c))
         else postStruct)"

definition FindOrCreatePerson ::
  "Codec \<Rightarrow> Client \<Rightarrow> Person \<Rightarrow> error option \<times> Person \<times> call list" where
  "FindOrCreatePerson J c newPerson =
     (if length (Email newPerson) < 1
      then (Some (InvalidArgument ''Must have at least one email''), newPerson, [])
      else
     (case authenticatedURL c
             (''/persons/find?search_by_email=1&term='' @ hd (Email newPerson)) of
        Inl err \<Rightarrow> (Some err, newPerson, [])
      | Inr authedURL \<Rightarrow>
     (case Get (httpClient c) (url_String authedURL) of
        Inl err \<Rightarrow> (Some err, newPerson, [GET (url_String authedURL)])
      | Inr resp \<Rightarrow>
     (case Body resp of
        Inl err \<Rightarrow> (Some err, newPerson, [GET (url_String authedURL)])
      | Inr buf \<Rightarrow>
     (case Unmarshal J buf of
        Inl err \<Rightarrow> (Some err, newPerson, [GET (url_String authedURL)])
      | Inr data \<Rightarrow>
          if index data ''data'' \<noteq> GNil then
            (case found_id data of
               None \<Rightarrow> (Some MalformedResponse, newPerson, [GET (url_String authedURL)])
             | Some f \<Rightarrow>
                 (None, newPerson\<lparr>Person.ID := go_int f\<rparr>, [GET (url_String authedURL)]))
          else
            (case createEntitiy J c ''/persons'' (person_postStruct c newPerson) of
               (Inl err, calls) \<Rightarrow> (Some err, newPerson, GET (url_String authedURL) # calls)
             | (Inr data', calls) \<Rightarrow>
                 if index data' ''data'' \<noteq> GNil then
                   (case created_id data' of
                      None \<Rightarrow>
                        (Some MalformedResponse, newPerson,
                         GET (url_String authedURL) # calls)
                    | Some f \<Rightarrow>
                        (None, newPerson\<lparr>Person.ID := go_int f\<rparr>,
                         GET (url_String authedURL) # calls))
                 else
                   (Some (CreationFailed (''Error creating Pipedrive person: '' @ buf)),
                    newPerson, GET (url_String authedURL) # calls)))))))"

text \<open>\<^verbatim>\<open>CreateDeal\<close> first writes the default user into the deal, then builds
  \<^verbatim>\<open>bodyData\<close> from the deal's fields and every entry of \<^verbatim>\<open>newDeal.Fields\<close>.\<close>

definition default_user :: "Client \<Rightarrow> Deal \<Rightarrow> Deal" where
  "default_user c newDeal =
     (if DefaultUserID c \<noteq> 0 \<and> UserID newDeal = 0
      then newDeal\<lparr>UserID := DefaultUserID c\<rparr> else newDeal)"

definition deal_bodyData :: "Deal \<Rightarrow> gmap" where
  "deal_bodyData newDeal =
     [''title'' \<mapsto> GString (Title newDeal),
      ''value'' \<mapsto> GInt (Value newDeal),
      ''user_id'' \<mapsto> GInt (UserID newDeal),
      ''person_id'' \<mapsto> GInt (PersonID newDeal),
      ''org_id'' \<mapsto> GInt (Deal.OrganizationID newDeal)] ++ Deal.Fields newDeal"

definition CreateDeal ::
  "Codec \<Rightarrow> Client \<Rightarrow> Deal \<Rightarrow> error option \<times> Deal \<times> call list" where
  "CreateDeal J c newDeal0 =
     (let newDeal = default_user c newDeal0 in
      case createEntitiy J c ''/deals'' (deal_bodyData newDeal) of
        (Inl err, calls) \<Rightarrow> (Some err, newDeal, calls)
      | (Inr data, calls) \<Rightarrow>
          if index data ''data'' \<noteq> GNil then
            (case created_id data of
               None \<Rightarrow> (Some MalformedResponse, newDeal, calls)
             | Some f \<Rightarrow> (None, newDeal\<lparr>Deal.ID := go_int f\<rparr>, calls))
          else
            (Some (CreationFailed (''Error creating Pipedrive deal: '' @ Sprint J data)),
             newDeal, calls))"

section \<open>The test double and example data\<close>

text \<open>\<^verbatim>\<open>fakeClient\<close> of pipedrive_test.go answers \<^verbatim>\<open>Get\<close> and \<^verbatim>\<open>Post\<close> from a table
  of URLs, and fails for a URL that is not in the table.\<close>

definition fakeClient :: "(string \<rightharpoonup> string) \<Rightarrow> Requestor" where
  "fakeClient reqs =
     \<lparr>Get = (\<lambda>url. case reqs url of
                Some body \<Rightarrow> Inr \<lparr>Body = Inr body\<rparr>
              | None \<Rightarrow> Inl (TransportError (''URL not mocked out: '' @ url))),
      Post = (\<lambda>url contentType body. case reqs url of
                Some body \<Rightarrow> Inr \<lparr>Body = Inr body\<rparr>
              | None \<Rightarrow> Inl (TransportError (''URL not mocked out: '' @ url)))\<rparr>"

definition quoted :: "string \<Rightarrow> string" where
  "quoted s = CHR 0x22 # s @ [CHR 0x22]"

text \<open>Four response bodies: a search that finds id 1, a response with \<^verbatim>\<open>data\<close> null, a
  create response with id 2, and a refusal with \<^verbatim>\<open>data\<close> null.\<close>

definition found_body :: string where
  "found_body = ''{'' @ quoted ''data'' @ '':[{'' @ quoted ''id'' @ '':1}]}''"

definition null_body :: string where
  "null_body = ''{'' @ quoted ''data'' @ '':null}''"

definition created_body :: string where
  "created_body = ''{'' @ quoted ''data'' @ '':{'' @ quoted ''id'' @ '':2}}''"

definition refused_body :: string where
  "refused_body =
     ''{'' @ quoted ''success'' @ '':false,'' @ quoted ''data'' @ '':null}''"

text \<open>
  The codec of the examples. It decodes the four bodies as \<^verbatim>\<open>encoding/json\<close> does.
  It encodes a map of the client as \<^verbatim>\<open>json.Marshal\<close> does, for the keys that the
  client writes (in the order of the keys) and for values that are nil, booleans,
  integers, and strings or lists of strings that need no escaping. It prints the envelope
  of a refusal as \<^verbatim>\<open>%+v\<close> does.
\<close>

definition example_Unmarshal :: "string \<Rightarrow> error + gmap" where
  "example_Unmarshal s =
     (if s = found_body then Inr [''data'' \<mapsto> GSlice [GMap [''id'' \<mapsto> GFloat64 1]]]
      else if s = null_body then Inr [''data'' \<mapsto> GNil]
      else if s = created_body then Inr [''data'' \<mapsto> GMap [''id'' \<mapsto> GFloat64 2]]
      else if s = refused_body then Inr [''success'' \<mapsto> GBool False, ''data'' \<mapsto> GNil]
      else Inl (InvalidJSON s))"

definition plain_char :: "char \<Rightarrow> bool" where
  "plain_char c \<longleftrightarrow>
     CHR '' '' \<le> c \<and> c \<le> CHR ''~'' \<and>
     c \<notin> {CHR 0x22, CHR 0x5C, CHR ''<'', CHR ''>'', CHR ''&''}"

function dec_nat :: "nat \<Rightarrow> string" where
  "dec_nat n =
     (if n < 10 then [''0123456789'' ! n]
      else dec_nat (n div 10) @ [''0123456789'' ! (n mod 10)])"
  by pat_completeness auto
termination
  by (relation "measure id") auto

declare dec_nat.simps [simp del]

definition dec_int :: "int \<Rightarrow> string" where
  "dec_int i = (if i < 0 then ''-'' @ dec_nat (nat (- i)) else dec_nat (nat i))"

fun join_comma :: "string list \<Rightarrow> string" where
  "join_comma [] = []"
| "join_comma [s] = s"
| "join_comma (s # t # ss) = s @ '','' @ join_comma (t # ss)"

definition json_value :: "gval \<Rightarrow> string option" where
  "json_value v =
     (case v of
        GNil \<Rightarrow> Some ''null''
      | GBool b \<Rightarrow> Some (if b then ''true'' else ''false'')
      | GInt i \<Rightarrow> Some (dec_int i)
      | GString s \<Rightarrow> if list_all plain_char s then Some (quoted s) else None
      | GStrings ss \<Rightarrow>
          if ss \<noteq> [] \<and> list_all (list_all plain_char) ss
          then Some (''['' @ join_comma (map quoted ss) @ '']'') else None
      | _ \<Rightarrow> None)"

fun json_members :: "gmap \<Rightarrow> string list \<Rightarrow> string list option" where
  "json_members m [] = Some []"
| "json_members m (k # ks) =
     (case m k of
        None \<Rightarrow> json_members m ks
      | Some v \<Rightarrow>
          (case json_value v of
             None \<Rightarrow> None
           | Some j \<Rightarrow> map_option ((#) (quoted k @ '':'' @ j)) (json_members m ks)))"

definition example_Marshal :: "gmap \<Rightarrow> error + string" where
  "example_Marshal m =
     (case json_members m
        [''email'', ''name'', ''org_id'', ''owner_id'', ''person_id'', ''title'', ''user_id'',
         ''value''] of
        None \<Rightarrow> Inl (MarshalError ''unsupported value'')
      | Some ms \<Rightarrow> Inr (''{'' @ join_comma ms @ ''}''))"

definition sprint_value :: "gval \<Rightarrow> string" where
  "sprint_value v =
     (case v of
        GNil \<Rightarrow> ''<nil>''
      | GBool b \<Rightarrow> (if b then ''true'' else ''false'')
      | GInt i \<Rightarrow> dec_int i
      | GString s \<Rightarrow> s
      | _ \<Rightarrow> ''?'')"

fun sprint_members :: "gmap \<Rightarrow> string list \<Rightarrow> string list" where
  "sprint_members m [] = []"
| "sprint_members m (k # ks) =
     (case m k of
        None \<Rightarrow> sprint_members m ks
      | Some v \<Rightarrow> (k @ '':'' @ sprint_value v) # sprint_members m ks)"

fun join_space :: "string list \<Rightarrow> string" where
  "join_space [] = []"
| "join_space [s] = s"
| "join_space (s # t # ss) = s @ '' '' @ join_space (t # ss)"

definition example_Sprint :: "gmap \<Rightarrow> string" where
  "example_Sprint m = ''map['' @ join_space (sprint_members m [''data'', ''success'']) @ '']''"

definition example_codec :: Codec where
  "example_codec =
     \<lparr>Unmarshal = example_Unmarshal, Marshal = example_Marshal, Sprint = example_Sprint\<rparr>"

definition test_client :: "(string \<rightharpoonup> string) \<Rightarrow> int \<Rightarrow> Client" where
  "test_client reqs uid =
     \<lparr>APIToken = ''abc123'', BaseURL = ''http://base'', DefaultUserID = uid,
      httpClient = fakeClient reqs\<rparr>"

text \<open>The URLs of the tests, as \<open>authenticatedURL\<close> returns them.\<close>

definition base_URL :: "string \<Rightarrow> string \<Rightarrow> URL" where
  "base_URL path rawQuery =
     \<lparr>Head = ''http://base'' @ path, ForceQuery = False, RawQuery = rawQuery, Fragment = []\<rparr>"

definition org_find :: URL where
  "org_find = base_URL ''/organizations/find'' ''api_token=abc123&term=Videofruit''"

definition org_create :: URL where
  "org_create = base_URL ''/organizations'' ''api_token=abc123''"

definition person_find :: URL where
  "person_find =
     base_URL ''/persons/find'' ''api_token=abc123&search_by_email=1&term=test%40videofruit.com''"

definition person_create :: URL where
  "person_create = base_URL ''/persons'' ''api_token=abc123''"

definition deal_create :: URL where
  "deal_create = base_URL ''/deals'' ''api_token=abc123''"

text \<open>The URL of \<^verbatim>\<open>Test_authenticatedURLExistingParams\<close> as parsed, and a URL whose
  query has a token already, as parsed and as \<open>authenticatedURL\<close> returns it.\<close>

definition paper_URL :: URL where
  "paper_URL = base_URL ''/organizations'' ''term=paper''"

definition old_token_URL :: URL where
  "old_token_URL = base_URL ''/organizations'' ''api_token=old''"

definition twice_token_URL :: URL where
  "twice_token_URL = base_URL ''/organizations'' ''api_token=old&api_token=abc123''"

definition videofruit :: Organization where
  "videofruit =
     \<lparr>Organization.ID = 0, Name = ''Videofruit'', OwnerID = 0, Fields = Map.empty\<rparr>"

definition tester :: Person where
  "tester =
     \<lparr>Person.ID = 0, OwnerID = 0, OrganizationID = 0, Name = ''Tester McTest'',
      Email = [''test@videofruit.com''], Phone = [''555-0100'']\<rparr>"

definition close_this :: Deal where
  "close_this =
     \<lparr>Deal.ID = 0, Title = ''Close this deal!'', Value = 1000, UserID = 0, PersonID = 1,
      OrganizationID = 2, Fields = [''title'' \<mapsto> GString ''Custom title'']\<rparr>"

text \<open>The bodies that the client posts for these entities.\<close>

definition videofruit_json :: string where
  "videofruit_json = ''{'' @ quoted ''name'' @ '':'' @ quoted ''Videofruit'' @ ''}''"

definition tester_json :: string where
  "tester_json =
     ''{'' @ quoted ''email'' @ '':['' @ quoted ''test@videofruit.com'' @ ''],''
       @ quoted ''name'' @ '':'' @ quoted ''Tester McTest'' @ '',''
       @ quoted ''org_id'' @ '':0}''"

definition close_this_json :: "string \<Rightarrow> string" where
  "close_this_json user =
     ''{'' @ quoted ''org_id'' @ '':2,'' @ quoted ''person_id'' @ '':1,''
       @ quoted ''title'' @ '':'' @ quoted ''Custom title'' @ '',''
       @ quoted ''user_id'' @ '':'' @ user @ '','' @ quoted ''value'' @ '':1000}''"

text \<open>An organization and a person that have an owner, and the bodies posted for them by
  a client whose default user is 7.\<close>

definition owned_videofruit :: Organization where
  "owned_videofruit =
     \<lparr>Organization.ID = 0, Name = ''Videofruit'', OwnerID = 5,
      Fields = [''owner_id'' \<mapsto> GInt 5]\<rparr>"

definition owned_tester :: Person where
  "owned_tester =
     \<lparr>Person.ID = 0, OwnerID = 5, OrganizationID = 0, Name = ''Tester McTest'',
      Email = [''test@videofruit.com''], Phone = []\<rparr>"

definition owned_videofruit_json :: string where
  "owned_videofruit_json =
     ''{'' @ quoted ''name'' @ '':'' @ quoted ''Videofruit'' @ '','' @ quoted ''owner_id'' @ '':7}''"

definition owned_tester_json :: string where
  "owned_tester_json =
     ''{'' @ quoted ''email'' @ '':['' @ quoted ''test@videofruit.com'' @ ''],''
       @ quoted ''name'' @ '':'' @ quoted ''Tester McTest'' @ '',''
       @ quoted ''org_id'' @ '':0,'' @ quoted ''owner_id'' @ '':7}''"

text \<open>An organization whose \<^verbatim>\<open>Fields\<close> have a \<^verbatim>\<open>name\<close>, and the body posted for it.\<close>

definition renamed_videofruit :: Organization where
  "renamed_videofruit =
     \<lparr>Organization.ID = 0, Name = ''Videofruit'', OwnerID = 0,
      Fields = [''name'' \<mapsto> GString ''Videofruit Inc'']\<rparr>"

definition renamed_videofruit_json :: string where
  "renamed_videofruit_json =
     ''{'' @ quoted ''name'' @ '':'' @ quoted ''Videofruit Inc'' @ ''}''"

section \<open>Evaluation of the examples\<close>

declare parseQuery.simps [simp del] query_pairs.simps [simp del]

lemmas url_eval =
  authenticatedURL_def url_Parse_def cut_before_def cut_after_def isCTL_def url_Query_def
  Values_Encode_def encode_key_def Values_Get_def QueryEscape_def escape_byte_def
  shouldEscape_def upperhex_def url_String_def ishex_def unhex_def Let_def test_client_def
  parseQuery.simps query_pairs.simps

lemma org_find_eval:
  "authenticatedURL (test_client reqs uid) ''/organizations/find?term=Videofruit''
   = Inr org_find"
  by (simp add: url_eval org_find_def base_URL_def)

lemma org_create_eval:
  "authenticatedURL (test_client reqs uid) ''/organizations'' = Inr org_create"
  by (simp add: url_eval org_create_def base_URL_def)

lemma person_find_eval:
  "authenticatedURL (test_client reqs uid)
     ''/persons/find?search_by_email=1&term=test@videofruit.com''
   = Inr person_find"
  by (simp add: url_eval person_find_def base_URL_def)

lemma person_create_eval:
  "authenticatedURL (test_client reqs uid) ''/persons'' = Inr person_create"
  by (simp add: url_eval person_create_def base_URL_def)

lemma deal_create_eval:
  "authenticatedURL (test_client reqs uid) ''/deals'' = Inr deal_create"
  by (simp add: url_eval deal_create_def base_URL_def)

lemma url_String_examples:
  "url_String org_find = ''http://base/organizations/find?api_token=abc123&term=Videofruit''"
  "url_String org_create = ''http://base/organizations?api_token=abc123''"
  "url_String person_find =
     ''http://base/persons/find?api_token=abc123&search_by_email=1&term=test%40videofruit.com''"
  "url_String person_create = ''http://base/persons?api_token=abc123''"
  "url_String deal_create = ''http://base/deals?api_token=abc123''"
  by (simp_all add: url_String_def org_find_def org_create_def person_find_def
      person_create_def deal_create_def base_URL_def)

lemma test_client_sel:
  "APIToken (test_client reqs uid) = ''abc123''"
  "BaseURL (test_client reqs uid) = ''http://base''"
  "DefaultUserID (test_client reqs uid) = uid"
  "httpClient (test_client reqs uid) = fakeClient reqs"
  by (simp_all add: test_client_def)

lemma body_distinct:
  "found_body \<noteq> null_body" "found_body \<noteq> created_body" "found_body \<noteq> refused_body"
  "null_body \<noteq> found_body" "null_body \<noteq> created_body" "null_body \<noteq> refused_body"
  "created_body \<noteq> found_body" "created_body \<noteq> null_body"
  "created_body \<noteq> refused_body"
  "refused_body \<noteq> found_body" "refused_body \<noteq> null_body"
  "refused_body \<noteq> created_body"
  by (simp_all add: found_body_def null_body_def created_body_def refused_body_def quoted_def)

lemmas json_eval =
  example_Marshal_def json_value_def dec_int_def dec_nat.simps plain_char_def quoted_def

lemma entity_sel:
  "Organization.Name videofruit = ''Videofruit''"
  "Email tester = [''test@videofruit.com'']"
  "Phone tester = [''555-0100'']"
  "UserID close_this = 0"
  "Deal.Fields close_this ''title'' = Some (GString ''Custom title'')"
  by (simp_all add: videofruit_def tester_def close_this_def)

lemma codec_eval:
  "Unmarshal example_codec found_body
     = Inr [''data'' \<mapsto> GSlice [GMap [''id'' \<mapsto> GFloat64 1]]]"
  "Unmarshal example_codec null_body = Inr [''data'' \<mapsto> GNil]"
  "Unmarshal example_codec created_body = Inr [''data'' \<mapsto> GMap [''id'' \<mapsto> GFloat64 2]]"
  "Unmarshal example_codec refused_body
     = Inr [''success'' \<mapsto> GBool False, ''data'' \<mapsto> GNil]"
  "Sprint example_codec [''success'' \<mapsto> GBool False, ''data'' \<mapsto> GNil]
     = ''map[data:<nil> success:false]''"
  by (simp_all add: example_codec_def example_Unmarshal_def body_distinct example_Sprint_def
      sprint_value_def)

lemma marshal_eval:
  "Marshal example_codec (organization_postStruct (test_client reqs 0) videofruit)
     = Inr videofruit_json"
  "Marshal example_codec (person_postStruct (test_client reqs 0) tester) = Inr tester_json"
  "Marshal example_codec (deal_bodyData (default_user (test_client reqs 0) close_this))
     = Inr (close_this_json ''0'')"
  "Marshal example_codec (deal_bodyData (default_user (test_client reqs 7) close_this))
     = Inr (close_this_json ''7'')"
  by (simp_all add: example_codec_def json_eval organization_postStruct_def
      person_postStruct_def deal_bodyData_def default_user_def test_client_sel videofruit_def
      tester_def close_this_def videofruit_json_def tester_json_def close_this_json_def)

lemma owned_sel:
  "Organization.Name owned_videofruit = ''Videofruit''"
  "Email owned_tester = [''test@videofruit.com'']"
  by (simp_all add: owned_videofruit_def owned_tester_def)

lemma owned_marshal_eval:
  "Marshal example_codec (organization_postStruct (test_client reqs 7) owned_videofruit)
     = Inr owned_videofruit_json"
  "Marshal example_codec (person_postStruct (test_client reqs 7) owned_tester)
     = Inr owned_tester_json"
  by (simp_all add: example_codec_def json_eval organization_postStruct_def
      person_postStruct_def test_client_sel owned_videofruit_def owned_tester_def
      owned_videofruit_json_def owned_tester_json_def)

lemma renamed_eval:
  "Organization.Name renamed_videofruit = ''Videofruit''"
  "Organization.Fields renamed_videofruit ''name'' = Some (GString ''Videofruit Inc'')"
  "Marshal example_codec (organization_postStruct (test_client reqs 0) renamed_videofruit)
     = Inr renamed_videofruit_json"
  by (simp_all add: example_codec_def json_eval organization_postStruct_def test_client_sel
      renamed_videofruit_def renamed_videofruit_json_def)

section \<open>The query string\<close>

text \<open>Escaping and unescaping are inverse, an escaped text has none of the separators
  of a query, and so parsing what \<open>Values_Encode\<close> writes gives back the values.\<close>

lemma upperhex_ok:
  assumes "n < 16"
  shows "ishex (upperhex n)" and "unhex (upperhex n) = n"
    and "upperhex n \<notin> {CHR ''&'', CHR ''='', CHR '';''}"
proof -
  from assms have "n \<in> {0,1,2,3,4,5,6,7,8,9,10,11,12,13,14,15}"
    by (simp; arith)
  then show "ishex (upperhex n)" and "unhex (upperhex n) = n"
    and "upperhex n \<notin> {CHR ''&'', CHR ''='', CHR '';''}"
    by (auto simp: upperhex_def ishex_def unhex_def)
qed

lemma of_char_div16: "(of_char (c::char) :: nat) div 16 < 16"
proof -
  have "(of_char c :: nat) < 256" by (rule nat_of_char_less_256)
  then show ?thesis by (intro less_mult_imp_div_less) simp
qed

lemma unreserved_plain:
  "\<not> shouldEscape c \<Longrightarrow> c \<notin> {CHR ''%'', CHR ''+'', CHR ''&'', CHR ''='', CHR '';''}"
  by (auto simp: shouldEscape_def)

lemma QueryUnescape_escape_byte:
  "QueryUnescape (escape_byte c @ s) = map_option ((#) c) (QueryUnescape s)"
proof -
  have hi: "(of_char c :: nat) div 16 < 16" by (rule of_char_div16)
  have lo: "(of_char c :: nat) mod 16 < 16" by simp
  have decoded: "char_of (unhex (upperhex (of_char c div 16)) * 16
      + unhex (upperhex (of_char c mod 16))) = c"
    by (simp add: upperhex_ok(2) [OF hi] upperhex_ok(2) [OF lo])
  show ?thesis
  proof (cases "c = CHR '' ''")
    case True
    then show ?thesis by (simp add: escape_byte_def)
  next
    case False
    show ?thesis
    proof (cases "shouldEscape c")
      case True
      with False show ?thesis
        using decoded by (simp add: escape_byte_def upperhex_ok(1) [OF hi] upperhex_ok(1) [OF lo])
    next
      case unres: False
      with False unreserved_plain [OF unres] show ?thesis
        by (simp add: escape_byte_def)
    qed
  qed
qed

lemma QueryUnescape_QueryEscape: "QueryUnescape (QueryEscape s) = Some s"
proof (induction s)
  case Nil
  show ?case by (simp add: QueryEscape_def)
next
  case (Cons c s)
  have "QueryEscape (c # s) = escape_byte c @ QueryEscape s"
    by (simp add: QueryEscape_def)
  with Cons show ?case
    by (simp add: QueryUnescape_escape_byte)
qed

lemma escape_byte_clean:
  "set (escape_byte c) \<inter> {CHR ''&'', CHR ''='', CHR '';''} = {}"
proof -
  have hi: "(of_char c :: nat) div 16 < 16" by (rule of_char_div16)
  have lo: "(of_char c :: nat) mod 16 < 16" by simp
  show ?thesis
    using upperhex_ok(3) [OF hi] upperhex_ok(3) [OF lo] unreserved_plain [of c]
    by (auto simp: escape_byte_def)
qed

lemma QueryEscape_clean:
  "set (QueryEscape s) \<inter> {CHR ''&'', CHR ''='', CHR '';''} = {}"
  using escape_byte_clean by (induction s) (auto simp: QueryEscape_def)

lemma cut_at:
  "sep \<notin> set a \<Longrightarrow> cut_before sep (a @ sep # b) = a"
  "sep \<notin> set a \<Longrightarrow> cut_after sep (a @ sep # b) = b"
  "sep \<notin> set a \<Longrightarrow> cut_before sep a = a"
  "sep \<notin> set a \<Longrightarrow> cut_after sep a = []"
  by (induction a) (auto simp: cut_before_def cut_after_def)

lemma parseQuery_pairs: "parseQuery m query = add_pairs m (query_pairs query)"
proof (induction m query rule: parseQuery.induct)
  case (1 m query)
  show ?case
  proof (cases "query = []")
    case True
    then show ?thesis
      by (simp add: parseQuery.simps [of m "[]"] query_pairs.simps [of "[]"] add_pairs_def)
  next
    case False
    with 1 show ?thesis
      by (subst parseQuery.simps, subst query_pairs.simps)
        (simp add: Let_def add_pairs_def split: option.splits)
  qed
qed

lemma segment_props:
  "segment p \<noteq> []" "CHR ''&'' \<notin> set (segment p)" "CHR '';'' \<notin> set (segment p)"
  "cut_before CHR ''='' (segment p) = QueryEscape (fst p)"
  "cut_after CHR ''='' (segment p) = QueryEscape (snd p)"
proof -
  have k: "CHR ''='' \<notin> set (QueryEscape (fst p))"
    using QueryEscape_clean [of "fst p"] by auto
  show "segment p \<noteq> []" by (simp add: segment_def)
  show "CHR ''&'' \<notin> set (segment p)"
    using QueryEscape_clean [of "fst p"] QueryEscape_clean [of "snd p"]
    by (auto simp: segment_def)
  show "CHR '';'' \<notin> set (segment p)"
    using QueryEscape_clean [of "fst p"] QueryEscape_clean [of "snd p"]
    by (auto simp: segment_def)
  show "cut_before CHR ''='' (segment p) = QueryEscape (fst p)"
    using cut_at(1) [OF k] by (simp add: segment_def)
  show "cut_after CHR ''='' (segment p) = QueryEscape (snd p)"
    using cut_at(2) [OF k] by (simp add: segment_def)
qed

lemma query_pairs_segment:
  "query_pairs (segment p) = [p]"
  "query_pairs (segment p @ CHR ''&'' # rest) = p # query_pairs rest"
proof -
  show "query_pairs (segment p) = [p]"
    by (subst query_pairs.simps)
      (simp add: segment_props cut_at QueryUnescape_QueryEscape query_pairs.simps [of "[]"])
  show "query_pairs (segment p @ CHR ''&'' # rest) = p # query_pairs rest"
    by (subst query_pairs.simps)
      (simp add: segment_props cut_at QueryUnescape_QueryEscape)
qed

lemma query_pairs_join: "query_pairs (join_amp (map segment ps)) = ps"
proof (induction ps rule: induct_list012)
  case 1
  show ?case by (simp add: query_pairs.simps [of "[]"])
next
  case (2 p)
  show ?case by (simp add: query_pairs_segment)
next
  case (3 p q ps)
  then show ?case by (simp add: query_pairs_segment)
qed

lemma Values_Encode_segments: "Values_Encode m = join_amp (map segment (encoded_pairs m))"
proof -
  have "encode_key m = (\<lambda>k. map segment (map (Pair k) (Values_Get m k)))"
    by (simp add: encode_key_def segment_def fun_eq_iff)
  then show ?thesis
    by (simp add: Values_Encode_def encoded_pairs_def map_concat comp_def)
qed

lemma query_pairs_Encode: "query_pairs (Values_Encode m) = encoded_pairs m"
  by (simp add: Values_Encode_segments query_pairs_join)

lemma sorted_groups:
  "sorted ks \<Longrightarrow> sorted (map fst (concat (map (\<lambda>k. map (Pair k) (g k)) ks)))"
proof (induction ks)
  case Nil
  show ?case by simp
next
  case (Cons k ks)
  then have "sorted (map fst (concat (map (\<lambda>k. map (Pair k) (g k)) ks)))"
    and above: "\<forall>k' \<in> set ks. k \<le> k'"
    by simp_all
  moreover have "map fst (map (Pair k) (g k)) = replicate (length (g k)) k"
    by (induction "g k" arbitrary: g) (simp_all add: comp_def map_replicate_const)
  ultimately show ?case
    by (auto simp: sorted_append)
qed

lemma sorted_encoded_pairs: "sorted (map fst (encoded_pairs m))"
  unfolding encoded_pairs_def by (rule sorted_groups) simp

lemma Values_Get_Add:
  "Values_Get (Values_Add m key val) k =
     (if k = key then Values_Get m key @ [val] else Values_Get m k)"
  by (induction m) (auto simp: Values_Get_def)

lemma keys_Values_Add:
  "map fst (Values_Add m key val) =
     (if key \<in> set (map fst m) then map fst m else map fst m @ [key])"
  by (induction m) (auto simp: rev_image_eqI)

lemma distinct_Values_Add:
  "distinct (map fst m) \<Longrightarrow> distinct (map fst (Values_Add m key val))"
  by (simp add: keys_Values_Add)

lemma distinct_add_pairs:
  "distinct (map fst m) \<Longrightarrow> distinct (map fst (add_pairs m ps))"
  unfolding add_pairs_def
  by (induction ps arbitrary: m) (auto simp: distinct_Values_Add)

lemma Values_Get_add_pairs:
  "Values_Get (add_pairs m ps) k = Values_Get m k @ map snd (filter (\<lambda>p. fst p = k) ps)"
  unfolding add_pairs_def
  by (induction ps arbitrary: m) (auto simp: Values_Get_Add)

lemma filter_groups:
  "distinct ks \<Longrightarrow>
   filter (\<lambda>p. fst p = k) (concat (map (\<lambda>k'. map (Pair k') (g k')) ks)) =
     (if k \<in> set ks then map (Pair k) (g k) else [])"
proof (induction ks)
  case Nil
  show ?case by simp
next
  case (Cons a ks)
  have own: "filter (\<lambda>p. fst p = k) (map (Pair a) (g a)) = (if a = k then map (Pair a) (g a) else [])"
    by (simp add: filter_map comp_def)
  from Cons show ?case
    by (auto simp: own)
qed

lemma Values_Get_absent: "k \<notin> set (map fst m) \<Longrightarrow> Values_Get m k = []"
proof -
  assume "k \<notin> set (map fst m)"
  then have "map_of m k = None" by (simp add: map_of_eq_None_iff)
  then show ?thesis by (simp add: Values_Get_def)
qed

lemma Values_Get_reparsed:
  assumes "distinct (map fst m)"
  shows "Values_Get (parseQuery [] (Values_Encode m)) k = Values_Get m k"
proof -
  have "Values_Get (parseQuery [] (Values_Encode m)) k
      = map snd (filter (\<lambda>p. fst p = k) (encoded_pairs m))"
    using Values_Get_absent [of k "[]"]
    by (simp add: parseQuery_pairs query_pairs_Encode Values_Get_add_pairs)
  also have "\<dots> = map snd (if k \<in> set (sort (map fst m)) then map (Pair k) (Values_Get m k) else [])"
    unfolding encoded_pairs_def using assms by (subst filter_groups) simp_all
  also have "\<dots> = Values_Get m k"
    using Values_Get_absent [of k m] by (simp add: comp_def)
  finally show ?thesis .
qed

lemma Values_Encode_order_free:
  assumes "distinct (map fst m)" and "distinct (map fst m')" and "map_of m = map_of m'"
  shows "Values_Encode m = Values_Encode m'"
proof -
  have "set (map fst m) = dom (map_of m)" and "set (map fst m') = dom (map_of m')"
    by (simp_all add: dom_map_of_conv_image_fst)
  with assms have "set (sort (map fst m)) = set (sort (map fst m'))"
    by simp
  moreover have "distinct (sort (map fst m))" and "distinct (sort (map fst m'))"
    using assms by simp_all
  ultimately have keys: "sort (map fst m) = sort (map fst m')"
    by (intro sorted_distinct_set_unique) simp_all
  have "encode_key m = encode_key m'"
    using assms(3) by (simp add: encode_key_def Values_Get_def fun_eq_iff)
  with keys show ?thesis
    by (simp add: Values_Encode_def)
qed

lemma cut_prefix:
  "sep \<notin> set a \<Longrightarrow> cut_before sep (a @ b) = a @ cut_before sep b"
  "sep \<notin> set a \<Longrightarrow> cut_after sep (a @ b) = cut_after sep b"
  by (induction a) (auto simp: cut_before_def cut_after_def)

lemma cut_after_last:
  assumes "u \<noteq> []" and "last u = sep" and "count_list u sep = 1"
  shows "cut_after sep u = []"
proof -
  from assms(1,2) have u: "u = butlast u @ [sep]"
    by (metis append_butlast_last_id)
  then have "count_list u sep = count_list (butlast u) sep + 1"
    by (metis count_list_append count_list.simps add.right_neutral add.commute
        count_list.simps(1) plus_1_eq_Suc)
  with assms(3) have "count_list (butlast u) sep = 0" by simp
  then have "sep \<notin> set (butlast u)"
    by (simp add: count_list_0_iff)
  then have "cut_after sep (butlast u @ sep # []) = []"
    by (rule cut_at(2))
  with u show ?thesis by simp
qed

lemma RawQuery_parsed:
  assumes "url_Parse rawURL = Inr u0"
  shows "RawQuery u0 = cut_after CHR ''?'' (cut_before CHR ''#'' rawURL)"
  using assms
  by (auto simp: url_Parse_def Let_def cut_after_last split: if_splits)

lemma url_Query_path:
  assumes "CHR ''?'' \<notin> set base" and "CHR ''#'' \<notin> set base"
    and "url_Parse (base @ path) = Inr u0"
  shows "url_Query u0 = parseQuery [] (cut_after CHR ''?'' (cut_before CHR ''#'' path))"
proof -
  have "RawQuery u0 = cut_after CHR ''?'' (cut_before CHR ''#'' (base @ path))"
    using assms(3) by (rule RawQuery_parsed)
  also have "\<dots> = cut_after CHR ''?'' (base @ cut_before CHR ''#'' path)"
    using assms(2) by (simp add: cut_prefix)
  also have "\<dots> = cut_after CHR ''?'' (cut_before CHR ''#'' path)"
    using assms(1) by (simp add: cut_prefix)
  finally show ?thesis by (simp add: url_Query_def)
qed

lemma distinct_url_Query: "distinct (map fst (url_Query u))"
  by (simp add: url_Query_def parseQuery_pairs distinct_add_pairs)

lemma authenticatedURL_parsed:
  assumes "url_Parse (BaseURL c @ path) = Inr u0"
  shows "authenticatedURL c path =
    Inr (u0\<lparr>RawQuery := Values_Encode (Values_Add (url_Query u0) ''api_token'' (APIToken c))\<rparr>)"
  using assms by (simp add: authenticatedURL_def)

lemma url_Query_authenticated:
  "Values_Get
     (url_Query (u0\<lparr>RawQuery :=
        Values_Encode (Values_Add (url_Query u0) ''api_token'' token)\<rparr>)) k
   = Values_Get (url_Query u0) k @ (if k = ''api_token'' then [token] else [])"
proof -
  have "distinct (map fst (Values_Add (url_Query u0) ''api_token'' token))"
    by (intro distinct_Values_Add distinct_url_Query)
  then have "Values_Get
     (parseQuery [] (Values_Encode (Values_Add (url_Query u0) ''api_token'' token))) k
     = Values_Get (Values_Add (url_Query u0) ''api_token'' token) k"
    by (rule Values_Get_reparsed)
  then show ?thesis
    by (simp add: url_Query_def [of "u0\<lparr>RawQuery := _\<rparr>"] Values_Get_Add)
qed

lemma url_Parse_examples:
  "url_Parse (BaseURL (test_client reqs uid) @ ''/organizations?term=paper'') = Inr paper_URL"
  "url_Parse (BaseURL (test_client reqs uid) @ ''/organizations?api_token=old'')
     = Inr old_token_URL"
  by (simp_all add: url_Parse_def cut_before_def cut_after_def isCTL_def test_client_sel
      paper_URL_def old_token_URL_def base_URL_def)

lemma url_Query_examples:
  "url_Query paper_URL = [(''term'', [''paper''])]"
  "url_Query old_token_URL = [(''api_token'', [''old''])]"
  "url_Query twice_token_URL = [(''api_token'', [''old'', ''abc123''])]"
  by (simp_all add: url_eval paper_URL_def old_token_URL_def twice_token_URL_def base_URL_def)

lemma twice_token_eval:
  "authenticatedURL (test_client reqs uid) ''/organizations?api_token=old'' = Inr twice_token_URL"
  by (simp add: url_eval twice_token_URL_def base_URL_def)

lemma dropped_eval:
  "authenticatedURL (test_client reqs uid) ''/organizations/find?term=Smith;Sons''
     = Inr (base_URL ''/organizations/find'' ''api_token=abc123'')"
  "authenticatedURL (test_client reqs uid) ''/organizations/find?term=100%''
     = Inr (base_URL ''/organizations/find'' ''api_token=abc123'')"
  "url_Parse (BaseURL (test_client reqs uid) @ ''/organizations/find?term=Smith;Sons'')
     = Inr (base_URL ''/organizations/find'' ''term=Smith;Sons'')"
  "url_String (base_URL ''/organizations/find'' ''api_token=abc123'')
     = ''http://base/organizations/find?api_token=abc123''"
  "url_Query (base_URL ''/organizations/find'' ''api_token=abc123'')
     = [(''api_token'', [''abc123''])]"
  by (simp_all add: url_eval base_URL_def)

section \<open>What the three operations do\<close>

lemma go_int_of_int: "- (2 ^ 63) \<le> N \<Longrightarrow> N < 2 ^ 63 \<Longrightarrow> go_int (of_int N) = N"
  by (simp add: go_int_def)

lemma found_id_first:
  "data ''data'' = Some (GSlice (GMap m # xs)) \<Longrightarrow> m ''id'' = Some (GFloat64 f) \<Longrightarrow>
   found_id data = Some f \<and> index data ''data'' \<noteq> GNil"
  by (simp add: found_id_def index_def asSlice_def elem0_def asMap_def asFloat64_def)

lemma created_id_object:
  "data ''data'' = Some (GMap m) \<Longrightarrow> m ''id'' = Some (GFloat64 f) \<Longrightarrow>
   created_id data = Some f \<and> index data ''data'' \<noteq> GNil"
  by (simp add: created_id_def index_def asMap_def asFloat64_def)

lemma createEntitiy_ok:
  "Marshal J bodyData = Inr postBody \<Longrightarrow> authenticatedURL c path = Inr postURL \<Longrightarrow>
   Post (httpClient c) (url_String postURL) ''application/json'' postBody = Inr postResp \<Longrightarrow>
   Body postResp = Inr buf \<Longrightarrow>
   createEntitiy J c path bodyData =
     (Unmarshal J buf, [POST (url_String postURL) ''application/json'' postBody])"
  by (simp add: createEntitiy_def)

lemma createEntitiy_calls:
  "createEntitiy J c path bodyData = (r, calls) \<Longrightarrow> POST url ct body \<in> set calls \<Longrightarrow>
   Marshal J bodyData = Inr body"
  by (auto simp: createEntitiy_def split: sum.splits)

lemma createEntitiy_posts:
  "Marshal J bodyData = Inr postBody \<Longrightarrow> authenticatedURL c path = Inr postURL \<Longrightarrow>
   snd (createEntitiy J c path bodyData)
     = [POST (url_String postURL) ''application/json'' postBody]"
  by (simp add: createEntitiy_def split: sum.splits)

lemma create_deal_example:
  "CreateDeal example_codec (test_client [url_String deal_create \<mapsto> created_body] 0)
     close_this
   = (None,
      (default_user (test_client [url_String deal_create \<mapsto> created_body] 0) close_this)
        \<lparr>Deal.ID := 2\<rparr>,
      [POST (url_String deal_create) ''application/json'' (close_this_json ''0'')])"
  "CreateDeal example_codec (test_client [url_String deal_create \<mapsto> created_body] 7)
     close_this
   = (None,
      (default_user (test_client [url_String deal_create \<mapsto> created_body] 7) close_this)
        \<lparr>Deal.ID := 2\<rparr>,
      [POST (url_String deal_create) ''application/json'' (close_this_json ''7'')])"
  by (simp_all add: CreateDeal_def createEntitiy_def deal_create_eval
      test_client_sel fakeClient_def codec_eval marshal_eval index_def
      created_id_def asMap_def asFloat64_def go_int_def)

lemma create_deal_refused:
  "CreateDeal example_codec (test_client [url_String deal_create \<mapsto> refused_body] 0)
     close_this
   = (Some (CreationFailed
        (''Error creating Pipedrive deal: '' @ ''map[data:<nil> success:false]'')),
      default_user (test_client [url_String deal_create \<mapsto> refused_body] 0) close_this,
      [POST (url_String deal_create) ''application/json'' (close_this_json ''0'')])"
  by (simp add: CreateDeal_def createEntitiy_def deal_create_eval
      test_client_sel fakeClient_def codec_eval marshal_eval body_distinct index_def)

lemma create_org_refused:
  "FindOrCreateOrganization example_codec
     (test_client [url_String org_find \<mapsto> null_body, url_String org_create \<mapsto> refused_body] 0)
     videofruit
   = (Some (CreationFailed (''Error creating Pipedrive org: '' @ null_body)), videofruit,
      [GET (url_String org_find), POST (url_String org_create) ''application/json'' videofruit_json])"
  by (simp add: FindOrCreateOrganization_def createEntitiy_def org_find_eval org_create_eval
      test_client_sel fakeClient_def codec_eval marshal_eval body_distinct index_def
      url_String_examples entity_sel)

lemma create_person_refused:
  "FindOrCreatePerson example_codec
     (test_client [url_String person_find \<mapsto> null_body,
                   url_String person_create \<mapsto> refused_body] 0)
     tester
   = (Some (CreationFailed (''Error creating Pipedrive person: '' @ null_body)), tester,
      [GET (url_String person_find),
       POST (url_String person_create) ''application/json'' tester_json])"
  by (simp add: FindOrCreatePerson_def createEntitiy_def person_find_eval person_create_eval
      test_client_sel fakeClient_def codec_eval marshal_eval body_distinct index_def
      url_String_examples entity_sel)

lemma not_carried:
  "\<not> sublist refused_body (''Error creating Pipedrive org: '' @ null_body)"
  "\<not> sublist refused_body (''Error creating Pipedrive person: '' @ null_body)"
  "\<not> sublist refused_body (''Error creating Pipedrive deal: '' @ ''map[data:<nil> success:false]'')"
  by (simp_all add: refused_body_def null_body_def quoted_def sublist_Cons_right)

subsection \<open>Search finds the entity\<close>

text \<open>
  Claim C1. When the search request is answered, its body decodes, and \<^verbatim>\<open>data\<close> in the
  decoded envelope is a list whose first element is an object with a number \<open>f\<close> under
  \<^verbatim>\<open>id\<close>, then \<open>FindOrCreateOrganization\<close> and \<open>FindOrCreatePerson\<close> return no
  error, set the ID of the entity to \<open>int(f)\<close> and change nothing else, and the only
  call made is the GET of the search: there is no POST. \<open>int(f)\<close> is \<open>N\<close> when the
  number is the integer \<open>N\<close> (of the range of \<^verbatim>\<open>int\<close>).
\<close>

theorem found_sets_id:
  "(authenticatedURL c (''/organizations/find?term='' @ Organization.Name org) = Inr u \<and>
    Get (httpClient c) (url_String u) = Inr resp \<and> Body resp = Inr buf \<and>
    Unmarshal J buf = Inr data \<and>
    data ''data'' = Some (GSlice (GMap m # xs)) \<and> m ''id'' = Some (GFloat64 f) \<longrightarrow>
    FindOrCreateOrganization J c org =
      (None, org\<lparr>Organization.ID := go_int f\<rparr>, [GET (url_String u)])) \<and>
   (Email newPerson \<noteq> [] \<and>
    authenticatedURL c (''/persons/find?search_by_email=1&term='' @ hd (Email newPerson))
      = Inr u \<and>
    Get (httpClient c) (url_String u) = Inr resp \<and> Body resp = Inr buf \<and>
    Unmarshal J buf = Inr data \<and>
    data ''data'' = Some (GSlice (GMap m # xs)) \<and> m ''id'' = Some (GFloat64 f) \<longrightarrow>
    FindOrCreatePerson J c newPerson =
      (None, newPerson\<lparr>Person.ID := go_int f\<rparr>, [GET (url_String u)])) \<and>
   (f = of_int N \<and> - (2 ^ 63) \<le> N \<and> N < 2 ^ 63 \<longrightarrow> go_int f = N)"
  by (simp add: FindOrCreateOrganization_def FindOrCreatePerson_def found_id_first
      go_int_of_int)

theorem found_sets_id_witness:
  "FindOrCreateOrganization example_codec
     (test_client [url_String org_find \<mapsto> found_body] 0) videofruit
     = (None, videofruit\<lparr>Organization.ID := 1\<rparr>, [GET (url_String org_find)]) \<and>
   FindOrCreatePerson example_codec
     (test_client [url_String person_find \<mapsto> found_body] 0) tester
     = (None, tester\<lparr>Person.ID := 1\<rparr>, [GET (url_String person_find)])"
proof -
  let ?data = "[''data'' \<mapsto> GSlice [GMap [''id'' \<mapsto> GFloat64 1]]]"
  have org: "FindOrCreateOrganization example_codec
     (test_client [url_String org_find \<mapsto> found_body] 0) videofruit
     = (None, videofruit\<lparr>Organization.ID := go_int 1\<rparr>, [GET (url_String org_find)])"
    using found_sets_id [where c = "test_client [url_String org_find \<mapsto> found_body] 0"
        and org = videofruit and u = org_find and resp = "\<lparr>Body = Inr found_body\<rparr>"
        and buf = found_body and J = example_codec and data = ?data
        and m = "[''id'' \<mapsto> GFloat64 1]" and xs = "[]" and f = 1]
    by (simp add: org_find_eval entity_sel fakeClient_def test_client_sel
        codec_eval marshal_eval)
  have person: "FindOrCreatePerson example_codec
     (test_client [url_String person_find \<mapsto> found_body] 0) tester
     = (None, tester\<lparr>Person.ID := go_int 1\<rparr>, [GET (url_String person_find)])"
    using found_sets_id [where c = "test_client [url_String person_find \<mapsto> found_body] 0"
        and newPerson = tester and u = person_find and resp = "\<lparr>Body = Inr found_body\<rparr>"
        and buf = found_body and J = example_codec and data = ?data
        and m = "[''id'' \<mapsto> GFloat64 1]" and xs = "[]" and f = 1]
    by (simp add: person_find_eval entity_sel fakeClient_def test_client_sel
        codec_eval marshal_eval)
  have "go_int 1 = 1" by (simp add: go_int_def)
  with org person show ?thesis by simp
qed

subsection \<open>Search finds nothing and the entity is created\<close>

text \<open>
  Claim C2. When \<^verbatim>\<open>data\<close> of the search response is null or absent, and the create
  request is answered by an envelope whose \<^verbatim>\<open>data\<close> is an object with the number
  \<open>f\<close> under \<^verbatim>\<open>id\<close>, then the operation returns no error, sets the ID of the entity
  to \<open>int(f)\<close> (which is \<open>M\<close> for the integer \<open>M\<close>), and the calls made are one GET
  followed by one POST.
\<close>

theorem created_sets_id:
  "(authenticatedURL c (''/organizations/find?term='' @ Organization.Name org) = Inr u \<and>
    Get (httpClient c) (url_String u) = Inr resp \<and> Body resp = Inr buf \<and>
    Unmarshal J buf = Inr data \<and> index data ''data'' = GNil \<and>
    Marshal J (organization_postStruct c org) = Inr postBody \<and>
    authenticatedURL c ''/organizations'' = Inr postURL \<and>
    Post (httpClient c) (url_String postURL) ''application/json'' postBody = Inr postResp \<and>
    Body postResp = Inr buf' \<and> Unmarshal J buf' = Inr data' \<and>
    data' ''data'' = Some (GMap m) \<and> m ''id'' = Some (GFloat64 f) \<longrightarrow>
    FindOrCreateOrganization J c org =
      (None, org\<lparr>Organization.ID := go_int f\<rparr>,
       [GET (url_String u), POST (url_String postURL) ''application/json'' postBody])) \<and>
   (Email newPerson \<noteq> [] \<and>
    authenticatedURL c (''/persons/find?search_by_email=1&term='' @ hd (Email newPerson))
      = Inr u \<and>
    Get (httpClient c) (url_String u) = Inr resp \<and> Body resp = Inr buf \<and>
    Unmarshal J buf = Inr data \<and> index data ''data'' = GNil \<and>
    Marshal J (person_postStruct c newPerson) = Inr postBody \<and>
    authenticatedURL c ''/persons'' = Inr postURL \<and>
    Post (httpClient c) (url_String postURL) ''application/json'' postBody = Inr postResp \<and>
    Body postResp = Inr buf' \<and> Unmarshal J buf' = Inr data' \<and>
    data' ''data'' = Some (GMap m) \<and> m ''id'' = Some (GFloat64 f) \<longrightarrow>
    FindOrCreatePerson J c newPerson =
      (None, newPerson\<lparr>Person.ID := go_int f\<rparr>,
       [GET (url_String u), POST (url_String postURL) ''application/json'' postBody])) \<and>
   (f = of_int M \<and> - (2 ^ 63) \<le> M \<and> M < 2 ^ 63 \<longrightarrow> go_int f = M)"
  by (simp add: FindOrCreateOrganization_def FindOrCreatePerson_def createEntitiy_ok
      created_id_object go_int_of_int)

theorem created_sets_id_witness:
  "FindOrCreateOrganization example_codec
     (test_client [url_String org_find \<mapsto> null_body, url_String org_create \<mapsto> created_body] 0)
     videofruit
     = (None, videofruit\<lparr>Organization.ID := 2\<rparr>,
        [GET (url_String org_find), POST (url_String org_create) ''application/json'' videofruit_json]) \<and>
   FindOrCreatePerson example_codec
     (test_client [url_String person_find \<mapsto> null_body,
                   url_String person_create \<mapsto> created_body] 0) tester
     = (None, tester\<lparr>Person.ID := 2\<rparr>,
        [GET (url_String person_find),
         POST (url_String person_create) ''application/json'' tester_json])"
proof -
  let ?oc = "test_client [url_String org_find \<mapsto> null_body,
                          url_String org_create \<mapsto> created_body] 0"
  let ?pc = "test_client [url_String person_find \<mapsto> null_body,
                          url_String person_create \<mapsto> created_body] 0"
  have org: "FindOrCreateOrganization example_codec ?oc videofruit
     = (None, videofruit\<lparr>Organization.ID := go_int 2\<rparr>,
        [GET (url_String org_find), POST (url_String org_create) ''application/json'' videofruit_json])"
    using created_sets_id [where c = ?oc and org = videofruit and u = org_find
        and resp = "\<lparr>Body = Inr null_body\<rparr>" and buf = null_body and J = example_codec
        and data = "[''data'' \<mapsto> GNil]" and postBody = videofruit_json and postURL = org_create
        and postResp = "\<lparr>Body = Inr created_body\<rparr>" and buf' = created_body
        and data' = "[''data'' \<mapsto> GMap [''id'' \<mapsto> GFloat64 2]]"
        and m = "[''id'' \<mapsto> GFloat64 2]" and f = 2]
    by (simp add: org_find_eval org_create_eval entity_sel fakeClient_def
        test_client_sel codec_eval marshal_eval index_def url_String_examples body_distinct)
  have person: "FindOrCreatePerson example_codec ?pc tester
     = (None, tester\<lparr>Person.ID := go_int 2\<rparr>,
        [GET (url_String person_find),
         POST (url_String person_create) ''application/json'' tester_json])"
    using created_sets_id [where c = ?pc and newPerson = tester and u = person_find
        and resp = "\<lparr>Body = Inr null_body\<rparr>" and buf = null_body and J = example_codec
        and data = "[''data'' \<mapsto> GNil]" and postBody = tester_json and postURL = person_create
        and postResp = "\<lparr>Body = Inr created_body\<rparr>" and buf' = created_body
        and data' = "[''data'' \<mapsto> GMap [''id'' \<mapsto> GFloat64 2]]"
        and m = "[''id'' \<mapsto> GFloat64 2]" and f = 2]
    by (simp add: person_find_eval person_create_eval entity_sel fakeClient_def
        test_client_sel codec_eval marshal_eval index_def url_String_examples body_distinct)
  have "go_int 2 = 2" by (simp add: go_int_def)
  with org person show ?thesis by simp
qed

subsection \<open>A person without an email\<close>

text \<open>
  Claim C3. For a person whose \<^verbatim>\<open>Email\<close> is empty, \<open>FindOrCreatePerson\<close> returns the
  invalid-argument error, makes no call through the transport (neither GET nor POST), and
  leaves the person as it was.
\<close>

theorem no_email_fails:
  "FindOrCreatePerson J c (newPerson\<lparr>Email := []\<rparr>) =
     (Some (InvalidArgument ''Must have at least one email''), newPerson\<lparr>Email := []\<rparr>, [])"
  by (simp add: FindOrCreatePerson_def)

subsection \<open>The fields sent when a person is created\<close>

text \<open>
  Claim C6 says that the fields posted for a new person hold the name, the emails, the
  phones and the organization id. The map that \<open>FindOrCreatePerson\<close> posts has the keys
  \<^verbatim>\<open>name\<close>, \<^verbatim>\<open>email\<close> and \<^verbatim>\<open>org_id\<close> (and \<^verbatim>\<open>owner_id\<close> for a configured default
  user): the \<^verbatim>\<open>Phone\<close> of the person is not read. For the person \<open>tester\<close>, who has
  one phone number, the search finds nothing, the person is created, and the map posted
  has no entry for the phone.
\<close>

theorem person_payload_without_phone:
  "Phone tester = [''555-0100''] \<and>
   FindOrCreatePerson example_codec
     (test_client [url_String person_find \<mapsto> null_body,
                   url_String person_create \<mapsto> created_body] 0) tester
     = (None, tester\<lparr>Person.ID := 2\<rparr>,
        [GET (url_String person_find),
         POST (url_String person_create) ''application/json'' tester_json]) \<and>
   person_postStruct
     (test_client [url_String person_find \<mapsto> null_body,
                   url_String person_create \<mapsto> created_body] 0) tester
     = [''name'' \<mapsto> GString ''Tester McTest'',
        ''email'' \<mapsto> GStrings [''test@videofruit.com''],
        ''org_id'' \<mapsto> GInt 0] \<and>
   person_postStruct
     (test_client [url_String person_find \<mapsto> null_body,
                   url_String person_create \<mapsto> created_body] 0) tester ''phone'' = None"
proof -
  let ?c = "test_client [url_String person_find \<mapsto> null_body,
                         url_String person_create \<mapsto> created_body] 0"
  have "FindOrCreatePerson example_codec ?c tester
     = (None, tester\<lparr>Person.ID := 2\<rparr>,
        [GET (url_String person_find),
         POST (url_String person_create) ''application/json'' tester_json])"
    by (simp add: FindOrCreatePerson_def createEntitiy_def person_find_eval
        person_create_eval test_client_sel fakeClient_def codec_eval marshal_eval index_def
        url_String_examples entity_sel created_id_def asMap_def asFloat64_def go_int_def)
  moreover have "person_postStruct ?c tester
     = [''name'' \<mapsto> GString ''Tester McTest'',
        ''email'' \<mapsto> GStrings [''test@videofruit.com''],
        ''org_id'' \<mapsto> GInt 0]"
    by (simp add: person_postStruct_def test_client_sel tester_def)
  ultimately show ?thesis
    by (simp add: entity_sel)
qed

subsection \<open>The default user of the client\<close>

text \<open>
  Claim C7 says that the default owner is merged in only when the entity names no owner.
  With the default user 7 configured, the organization \<open>owned_videofruit\<close>, whose
  \<^verbatim>\<open>OwnerID\<close> is 5 and whose \<^verbatim>\<open>Fields\<close> hold \<^verbatim>\<open>owner_id\<close> 5, is created with
  \<^verbatim>\<open>owner_id\<close> 7 in the body posted, and so is the person \<open>owned_tester\<close>, whose
  \<^verbatim>\<open>OwnerID\<close> is 5. \<open>CreateDeal\<close>, for a deal whose \<^verbatim>\<open>UserID\<close> is 5, keeps the 5.
\<close>

theorem default_owner_replaces_owner:
  "FindOrCreateOrganization example_codec
     (test_client [url_String org_find \<mapsto> null_body, url_String org_create \<mapsto> created_body] 7)
     owned_videofruit
     = (None, owned_videofruit\<lparr>Organization.ID := 2\<rparr>,
        [GET (url_String org_find),
         POST (url_String org_create) ''application/json'' owned_videofruit_json]) \<and>
   organization_postStruct
     (test_client [url_String org_find \<mapsto> null_body, url_String org_create \<mapsto> created_body] 7)
     owned_videofruit ''owner_id'' = Some (GInt 7) \<and>
   FindOrCreatePerson example_codec
     (test_client [url_String person_find \<mapsto> null_body,
                   url_String person_create \<mapsto> created_body] 7) owned_tester
     = (None, owned_tester\<lparr>Person.ID := 2\<rparr>,
        [GET (url_String person_find),
         POST (url_String person_create) ''application/json'' owned_tester_json]) \<and>
   person_postStruct
     (test_client [url_String person_find \<mapsto> null_body,
                   url_String person_create \<mapsto> created_body] 7)
     owned_tester ''owner_id'' = Some (GInt 7) \<and>
   deal_bodyData (default_user (test_client Map.empty 7) (close_this\<lparr>UserID := 5\<rparr>)) ''user_id''
     = Some (GInt 5)"
proof (intro conjI)
  let ?oc = "test_client [url_String org_find \<mapsto> null_body,
                          url_String org_create \<mapsto> created_body] 7"
  let ?pc = "test_client [url_String person_find \<mapsto> null_body,
                          url_String person_create \<mapsto> created_body] 7"
  show "FindOrCreateOrganization example_codec ?oc owned_videofruit
     = (None, owned_videofruit\<lparr>Organization.ID := 2\<rparr>,
        [GET (url_String org_find),
         POST (url_String org_create) ''application/json'' owned_videofruit_json])"
    by (simp add: FindOrCreateOrganization_def createEntitiy_def org_find_eval
        org_create_eval test_client_sel fakeClient_def codec_eval owned_marshal_eval index_def
        url_String_examples owned_sel created_id_def asMap_def asFloat64_def go_int_def)
  show "organization_postStruct ?oc owned_videofruit ''owner_id'' = Some (GInt 7)"
    by (simp add: organization_postStruct_def test_client_sel)
  show "FindOrCreatePerson example_codec ?pc owned_tester
     = (None, owned_tester\<lparr>Person.ID := 2\<rparr>,
        [GET (url_String person_find),
         POST (url_String person_create) ''application/json'' owned_tester_json])"
    by (simp add: FindOrCreatePerson_def createEntitiy_def person_find_eval
        person_create_eval test_client_sel fakeClient_def codec_eval owned_marshal_eval
        index_def url_String_examples owned_sel created_id_def asMap_def asFloat64_def
        go_int_def)
  show "person_postStruct ?pc owned_tester ''owner_id'' = Some (GInt 7)"
    by (simp add: person_postStruct_def test_client_sel)
  show "deal_bodyData (default_user (test_client Map.empty 7) (close_this\<lparr>UserID := 5\<rparr>))
      ''user_id'' = Some (GInt 5)"
    by (simp add: deal_bodyData_def default_user_def test_client_sel close_this_def)
qed

subsection \<open>A create request that is answered without data\<close>

text \<open>
  Claim C8, as stated, fails: the error of a failed creation does not carry the body of
  the create response. The create request of the organization \<open>videofruit\<close> is answered
  by \<open>refused_body\<close>, and the message of the error returned is built from
  \<open>null_body\<close>, the body of the search response; the message of \<open>CreateDeal\<close> is
  built from the decoded envelope as \<^verbatim>\<open>fmt\<close> prints it. Neither message contains
  \<open>refused_body\<close>.
\<close>

theorem create_body_not_carried:
  "FindOrCreateOrganization example_codec
     (test_client [url_String org_find \<mapsto> null_body, url_String org_create \<mapsto> refused_body] 0)
     videofruit
   = (Some (CreationFailed (''Error creating Pipedrive org: '' @ null_body)), videofruit,
      [GET (url_String org_find), POST (url_String org_create) ''application/json'' videofruit_json]) \<and>
   Post (fakeClient [url_String org_find \<mapsto> null_body, url_String org_create \<mapsto> refused_body])
     (url_String org_create) ''application/json'' videofruit_json = Inr \<lparr>Body = Inr refused_body\<rparr> \<and>
   \<not> sublist refused_body (''Error creating Pipedrive org: '' @ null_body) \<and>
   CreateDeal example_codec (test_client [url_String deal_create \<mapsto> refused_body] 0) close_this
   = (Some (CreationFailed ''Error creating Pipedrive deal: map[data:<nil> success:false]''),
      close_this, [POST (url_String deal_create) ''application/json'' (close_this_json ''0'')]) \<and>
   Post (fakeClient [url_String deal_create \<mapsto> refused_body])
     (url_String deal_create) ''application/json'' (close_this_json ''0'') = Inr \<lparr>Body = Inr refused_body\<rparr> \<and>
   \<not> sublist refused_body ''Error creating Pipedrive deal: map[data:<nil> success:false]''"
proof (intro conjI)
  have same: "default_user (test_client [url_String deal_create \<mapsto> refused_body] 0) close_this
      = close_this"
    by (simp add: default_user_def test_client_sel)
  show "FindOrCreateOrganization example_codec
     (test_client [url_String org_find \<mapsto> null_body, url_String org_create \<mapsto> refused_body] 0)
     videofruit
   = (Some (CreationFailed (''Error creating Pipedrive org: '' @ null_body)), videofruit,
      [GET (url_String org_find), POST (url_String org_create) ''application/json'' videofruit_json])"
    by (rule create_org_refused)
  show "CreateDeal example_codec (test_client [url_String deal_create \<mapsto> refused_body] 0)
     close_this
   = (Some (CreationFailed ''Error creating Pipedrive deal: map[data:<nil> success:false]''),
      close_this, [POST (url_String deal_create) ''application/json'' (close_this_json ''0'')])"
    using create_deal_refused by (simp add: same)
  show "\<not> sublist refused_body (''Error creating Pipedrive org: '' @ null_body)"
    by (rule not_carried)
  show "\<not> sublist refused_body ''Error creating Pipedrive deal: map[data:<nil> success:false]''"
    using not_carried(3) by simp
qed (simp_all add: fakeClient_def url_String_examples)

text \<open>
  Claim C8, amended. When the create request is answered and \<^verbatim>\<open>data\<close> of the decoded
  envelope is null or absent, each of the three operations returns a creation-failed
  error and does not set the ID; the message of \<open>CreateDeal\<close> is
  \<^verbatim>\<open>Error creating Pipedrive deal: \<close> followed by the decoded envelope of the create
  response as \<^verbatim>\<open>%+v\<close> prints it.
\<close>

theorem creation_failed:
  "(authenticatedURL c (''/organizations/find?term='' @ Organization.Name org) = Inr u \<and>
    Get (httpClient c) (url_String u) = Inr resp \<and> Body resp = Inr buf \<and>
    Unmarshal J buf = Inr data \<and> index data ''data'' = GNil \<and>
    Marshal J (organization_postStruct c org) = Inr postBody \<and>
    authenticatedURL c ''/organizations'' = Inr postURL \<and>
    Post (httpClient c) (url_String postURL) ''application/json'' postBody = Inr postResp \<and>
    Body postResp = Inr buf' \<and> Unmarshal J buf' = Inr data' \<and>
    index data' ''data'' = GNil \<longrightarrow>
    (\<exists>msg. FindOrCreateOrganization J c org =
      (Some (CreationFailed msg), org,
       [GET (url_String u), POST (url_String postURL) ''application/json'' postBody]))) \<and>
   (Email newPerson \<noteq> [] \<and>
    authenticatedURL c (''/persons/find?search_by_email=1&term='' @ hd (Email newPerson))
      = Inr u \<and>
    Get (httpClient c) (url_String u) = Inr resp \<and> Body resp = Inr buf \<and>
    Unmarshal J buf = Inr data \<and> index data ''data'' = GNil \<and>
    Marshal J (person_postStruct c newPerson) = Inr postBody \<and>
    authenticatedURL c ''/persons'' = Inr postURL \<and>
    Post (httpClient c) (url_String postURL) ''application/json'' postBody = Inr postResp \<and>
    Body postResp = Inr buf' \<and> Unmarshal J buf' = Inr data' \<and>
    index data' ''data'' = GNil \<longrightarrow>
    (\<exists>msg. FindOrCreatePerson J c newPerson =
      (Some (CreationFailed msg), newPerson,
       [GET (url_String u), POST (url_String postURL) ''application/json'' postBody]))) \<and>
   (Marshal J (deal_bodyData (default_user c newDeal)) = Inr postBody \<and>
    authenticatedURL c ''/deals'' = Inr postURL \<and>
    Post (httpClient c) (url_String postURL) ''application/json'' postBody = Inr postResp \<and>
    Body postResp = Inr buf' \<and> Unmarshal J buf' = Inr data' \<and>
    index data' ''data'' = GNil \<longrightarrow>
    CreateDeal J c newDeal =
      (Some (CreationFailed (''Error creating Pipedrive deal: '' @ Sprint J data')),
       default_user c newDeal,
       [POST (url_String postURL) ''application/json'' postBody]))"
  by (simp add: FindOrCreateOrganization_def FindOrCreatePerson_def CreateDeal_def
      createEntitiy_ok)

theorem creation_failed_witness:
  "(\<exists>msg. FindOrCreateOrganization example_codec
      (test_client [url_String org_find \<mapsto> null_body, url_String org_create \<mapsto> refused_body] 0)
      videofruit
    = (Some (CreationFailed msg), videofruit,
       [GET (url_String org_find), POST (url_String org_create) ''application/json'' videofruit_json])) \<and>
   (\<exists>msg. FindOrCreatePerson example_codec
      (test_client [url_String person_find \<mapsto> null_body,
                    url_String person_create \<mapsto> refused_body] 0) tester
    = (Some (CreationFailed msg), tester,
       [GET (url_String person_find),
        POST (url_String person_create) ''application/json'' tester_json])) \<and>
   CreateDeal example_codec (test_client [url_String deal_create \<mapsto> refused_body] 0) close_this
    = (Some (CreationFailed ''Error creating Pipedrive deal: map[data:<nil> success:false]''),
       close_this, [POST (url_String deal_create) ''application/json'' (close_this_json ''0'')])"
proof -
  let ?oc = "test_client [url_String org_find \<mapsto> null_body,
                          url_String org_create \<mapsto> refused_body] 0"
  let ?pc = "test_client [url_String person_find \<mapsto> null_body,
                          url_String person_create \<mapsto> refused_body] 0"
  let ?dc = "test_client [url_String deal_create \<mapsto> refused_body] 0"
  let ?refused = "[''success'' \<mapsto> GBool False, ''data'' \<mapsto> GNil]"
  have org: "\<exists>msg. FindOrCreateOrganization example_codec ?oc videofruit
    = (Some (CreationFailed msg), videofruit,
       [GET (url_String org_find), POST (url_String org_create) ''application/json'' videofruit_json])"
    using creation_failed [where c = ?oc and org = videofruit and u = org_find
        and resp = "\<lparr>Body = Inr null_body\<rparr>" and buf = null_body and J = example_codec
        and data = "[''data'' \<mapsto> GNil]" and postBody = videofruit_json and postURL = org_create
        and postResp = "\<lparr>Body = Inr refused_body\<rparr>" and buf' = refused_body
        and data' = ?refused]
    by (simp add: org_find_eval org_create_eval entity_sel fakeClient_def
        test_client_sel codec_eval marshal_eval index_def url_String_examples body_distinct)
  have person: "\<exists>msg. FindOrCreatePerson example_codec ?pc tester
    = (Some (CreationFailed msg), tester,
       [GET (url_String person_find),
        POST (url_String person_create) ''application/json'' tester_json])"
    using creation_failed [where c = ?pc and newPerson = tester and u = person_find
        and resp = "\<lparr>Body = Inr null_body\<rparr>" and buf = null_body and J = example_codec
        and data = "[''data'' \<mapsto> GNil]" and postBody = tester_json and postURL = person_create
        and postResp = "\<lparr>Body = Inr refused_body\<rparr>" and buf' = refused_body
        and data' = ?refused]
    by (simp add: person_find_eval person_create_eval entity_sel fakeClient_def
        test_client_sel codec_eval marshal_eval index_def url_String_examples body_distinct)
  have deal: "CreateDeal example_codec ?dc close_this
    = (Some (CreationFailed (''Error creating Pipedrive deal: '' @ Sprint example_codec ?refused)),
       default_user ?dc close_this,
       [POST (url_String deal_create) ''application/json'' (close_this_json ''0'')])"
    using creation_failed [where c = ?dc and newDeal = close_this and J = example_codec
        and postBody = "close_this_json ''0''" and postURL = deal_create
        and postResp = "\<lparr>Body = Inr refused_body\<rparr>" and buf' = refused_body
        and data' = ?refused]
    by (simp add: deal_create_eval fakeClient_def
        test_client_sel codec_eval marshal_eval index_def url_String_examples body_distinct)
  have "default_user ?dc close_this = close_this"
    by (simp add: default_user_def test_client_sel)
  moreover have "Sprint example_codec ?refused = ''map[data:<nil> success:false]''"
    by (simp add: codec_eval marshal_eval)
  ultimately show ?thesis using org person deal by simp
qed

subsection \<open>What an operation writes to the entity\<close>

text \<open>
  Claim C9, as stated, fails for a deal: with the default user 7 configured, \<open>CreateDeal\<close>
  writes 7 to the \<^verbatim>\<open>UserID\<close> of a deal whose \<^verbatim>\<open>UserID\<close> was 0.
\<close>

theorem deal_user_written:
  "UserID close_this = 0 \<and>
   UserID (fst (snd (CreateDeal example_codec
     (test_client [url_String deal_create \<mapsto> created_body] 7) close_this))) = 7"
proof -
  have "UserID (default_user (test_client [url_String deal_create \<mapsto> created_body] 7)
      close_this) = 7"
    by (simp add: default_user_def test_client_sel close_this_def)
  moreover have "UserID close_this = 0"
    by (simp add: close_this_def)
  ultimately show ?thesis
    by (simp add: create_deal_example)
qed

text \<open>
  Claim C9, amended. \<open>FindOrCreateOrganization\<close> and \<open>FindOrCreatePerson\<close> change no
  field of the entity but the ID. \<open>CreateDeal\<close> changes no field but the ID and the
  \<^verbatim>\<open>UserID\<close>, which becomes the default user of the client when that is not zero and
  the \<^verbatim>\<open>UserID\<close> of the deal is zero. This holds whether the operation succeeds or
  fails.
\<close>

theorem only_id_and_default_user:
  "(fst (snd (FindOrCreateOrganization J c org)))\<lparr>Organization.ID := Organization.ID org\<rparr>
     = org \<and>
   (fst (snd (FindOrCreatePerson J c newPerson)))\<lparr>Person.ID := Person.ID newPerson\<rparr>
     = newPerson \<and>
   (fst (snd (CreateDeal J c newDeal)))\<lparr>Deal.ID := Deal.ID newDeal\<rparr>
     = (if DefaultUserID c \<noteq> 0 \<and> UserID newDeal = 0
        then newDeal\<lparr>UserID := DefaultUserID c\<rparr> else newDeal)"
proof (intro conjI)
  show "(fst (snd (FindOrCreateOrganization J c org)))\<lparr>Organization.ID := Organization.ID org\<rparr>
     = org"
    by (simp add: FindOrCreateOrganization_def split: sum.splits option.splits prod.splits)
  show "(fst (snd (FindOrCreatePerson J c newPerson)))\<lparr>Person.ID := Person.ID newPerson\<rparr>
     = newPerson"
    by (simp add: FindOrCreatePerson_def split: sum.splits option.splits prod.splits)
  show "(fst (snd (CreateDeal J c newDeal)))\<lparr>Deal.ID := Deal.ID newDeal\<rparr>
     = (if DefaultUserID c \<noteq> 0 \<and> UserID newDeal = 0
        then newDeal\<lparr>UserID := DefaultUserID c\<rparr> else newDeal)"
    by (simp add: CreateDeal_def default_user_def Let_def
        split: sum.splits option.splits prod.splits)
qed

theorem only_id_and_default_user_witness:
  "(fst (snd (CreateDeal example_codec
      (test_client [url_String deal_create \<mapsto> created_body] 7) close_this)))
      \<lparr>Deal.ID := Deal.ID close_this\<rparr>
   = close_this\<lparr>UserID := 7\<rparr>"
  using only_id_and_default_user [where newDeal = close_this and J = example_codec
      and c = "test_client [url_String deal_create \<mapsto> created_body] 7"]
  by (simp add: test_client_sel close_this_def)

subsection \<open>Fields given by the caller\<close>

text \<open>
  Claim C10. The entries of \<^verbatim>\<open>Fields\<close> are written to the map after the keys that the
  client builds from the struct. So for every key of the \<^verbatim>\<open>Fields\<close> of a deal (in
  particular \<^verbatim>\<open>title\<close>, \<^verbatim>\<open>value\<close>, \<^verbatim>\<open>user_id\<close>, \<^verbatim>\<open>person_id\<close> and \<^verbatim>\<open>org_id\<close>)
  the value in the map is the value of \<^verbatim>\<open>Fields\<close>, and so it is for the key
  \<^verbatim>\<open>name\<close> of the \<^verbatim>\<open>Fields\<close> of an organization. That map is what is sent: when
  the map encodes and the URL of the create request parses, \<open>CreateDeal\<close> makes
  exactly one call, the POST of the encoding of the map, and
  \<open>FindOrCreateOrganization\<close>, after a search that found nothing, makes that POST after
  the GET; and no operation ever posts a body that is not the encoding of its map.
\<close>

theorem fields_override:
  "(Deal.Fields newDeal k = Some v \<longrightarrow> deal_bodyData (default_user c newDeal) k = Some v) \<and>
   (Marshal J (deal_bodyData (default_user c newDeal)) = Inr body \<and>
    authenticatedURL c ''/deals'' = Inr postURL \<longrightarrow>
      snd (snd (CreateDeal J c newDeal))
        = [POST (url_String postURL) ''application/json'' body]) \<and>
   (POST url ct body \<in> set (snd (snd (CreateDeal J c newDeal))) \<longrightarrow>
      Marshal J (deal_bodyData (default_user c newDeal)) = Inr body) \<and>
   (Organization.Fields org ''name'' = Some v \<longrightarrow>
      organization_postStruct c org ''name'' = Some v) \<and>
   (authenticatedURL c (''/organizations/find?term='' @ Organization.Name org) = Inr u \<and>
    Get (httpClient c) (url_String u) = Inr resp \<and> Body resp = Inr buf \<and>
    Unmarshal J buf = Inr data \<and> index data ''data'' = GNil \<and>
    Marshal J (organization_postStruct c org) = Inr body \<and>
    authenticatedURL c ''/organizations'' = Inr postURL \<longrightarrow>
      snd (snd (FindOrCreateOrganization J c org))
        = [GET (url_String u), POST (url_String postURL) ''application/json'' body]) \<and>
   (POST url ct body \<in> set (snd (snd (FindOrCreateOrganization J c org))) \<longrightarrow>
      Marshal J (organization_postStruct c org) = Inr body)"
proof (intro conjI impI)
  assume "Deal.Fields newDeal k = Some v"
  then have "Deal.Fields (default_user c newDeal) k = Some v"
    by (simp add: default_user_def)
  then show "deal_bodyData (default_user c newDeal) k = Some v"
    unfolding deal_bodyData_def by (rule map_add_find_right)
next
  assume "Marshal J (deal_bodyData (default_user c newDeal)) = Inr body \<and>
    authenticatedURL c ''/deals'' = Inr postURL"
  then have "snd (createEntitiy J c ''/deals'' (deal_bodyData (default_user c newDeal)))
      = [POST (url_String postURL) ''application/json'' body]"
    by (intro createEntitiy_posts) simp_all
  then show "snd (snd (CreateDeal J c newDeal))
      = [POST (url_String postURL) ''application/json'' body]"
    by (auto simp: CreateDeal_def Let_def split: sum.splits option.splits prod.splits)
next
  assume "POST url ct body \<in> set (snd (snd (CreateDeal J c newDeal)))"
  then show "Marshal J (deal_bodyData (default_user c newDeal)) = Inr body"
    by (auto simp: CreateDeal_def Let_def split: sum.splits option.splits prod.splits if_splits
        dest: createEntitiy_calls)
next
  assume "Organization.Fields org ''name'' = Some v"
  then have "([''name'' \<mapsto> GString (Organization.Name org)] ++ Organization.Fields org) ''name''
      = Some v"
    by (rule map_add_find_right)
  then show "organization_postStruct c org ''name'' = Some v"
    by (simp add: organization_postStruct_def Let_def)
next
  assume hyps: "authenticatedURL c (''/organizations/find?term='' @ Organization.Name org) = Inr u \<and>
    Get (httpClient c) (url_String u) = Inr resp \<and> Body resp = Inr buf \<and>
    Unmarshal J buf = Inr data \<and> index data ''data'' = GNil \<and>
    Marshal J (organization_postStruct c org) = Inr body \<and>
    authenticatedURL c ''/organizations'' = Inr postURL"
  then have "snd (createEntitiy J c ''/organizations'' (organization_postStruct c org))
      = [POST (url_String postURL) ''application/json'' body]"
    by (intro createEntitiy_posts) simp_all
  with hyps show "snd (snd (FindOrCreateOrganization J c org))
      = [GET (url_String u), POST (url_String postURL) ''application/json'' body]"
    by (auto simp: FindOrCreateOrganization_def split: sum.splits option.splits prod.splits)
next
  assume "POST url ct body \<in> set (snd (snd (FindOrCreateOrganization J c org)))"
  then show "Marshal J (organization_postStruct c org) = Inr body"
    by (auto simp: FindOrCreateOrganization_def split: sum.splits option.splits prod.splits
        if_splits dest: createEntitiy_calls)
qed

theorem fields_override_witness:
  "deal_bodyData (default_user (test_client [url_String deal_create \<mapsto> created_body] 0)
     close_this) ''title'' = Some (GString ''Custom title'') \<and>
   snd (snd (CreateDeal example_codec
     (test_client [url_String deal_create \<mapsto> created_body] 0) close_this))
     = [POST (url_String deal_create) ''application/json'' (close_this_json ''0'')] \<and>
   organization_postStruct
     (test_client [url_String org_find \<mapsto> null_body, url_String org_create \<mapsto> created_body] 0)
     renamed_videofruit ''name'' = Some (GString ''Videofruit Inc'') \<and>
   snd (snd (FindOrCreateOrganization example_codec
     (test_client [url_String org_find \<mapsto> null_body, url_String org_create \<mapsto> created_body] 0)
     renamed_videofruit))
     = [GET (url_String org_find),
        POST (url_String org_create) ''application/json'' renamed_videofruit_json]"
proof -
  let ?c = "test_client [url_String deal_create \<mapsto> created_body] 0"
  let ?oc = "test_client [url_String org_find \<mapsto> null_body,
                          url_String org_create \<mapsto> created_body] 0"
  note th = fields_override [where newDeal = close_this and c = ?c and J = example_codec
      and k = "''title''" and v = "GString ''Custom title''"
      and postURL = deal_create and body = "close_this_json ''0''"]
  note oth = fields_override [where org = renamed_videofruit and c = ?oc and J = example_codec
      and v = "GString ''Videofruit Inc''" and u = org_find
      and resp = "\<lparr>Body = Inr null_body\<rparr>" and buf = null_body
      and data = "[''data'' \<mapsto> GNil]" and postURL = org_create
      and body = renamed_videofruit_json]
  have 1: "deal_bodyData (default_user ?c close_this) ''title'' = Some (GString ''Custom title'')"
    using th [THEN conjunct1] by (simp add: entity_sel)
  have 2: "snd (snd (CreateDeal example_codec ?c close_this))
      = [POST (url_String deal_create) ''application/json'' (close_this_json ''0'')]"
    using th [THEN conjunct2, THEN conjunct1] by (simp add: marshal_eval deal_create_eval)
  have 3: "organization_postStruct ?oc renamed_videofruit ''name''
      = Some (GString ''Videofruit Inc'')"
    using oth [THEN conjunct2, THEN conjunct2, THEN conjunct2, THEN conjunct1]
    by (simp add: renamed_eval)
  have 4: "snd (snd (FindOrCreateOrganization example_codec ?oc renamed_videofruit))
      = [GET (url_String org_find),
         POST (url_String org_create) ''application/json'' renamed_videofruit_json]"
    using oth [THEN conjunct2, THEN conjunct2, THEN conjunct2, THEN conjunct2, THEN conjunct1]
    by (simp add: renamed_eval org_find_eval org_create_eval test_client_sel fakeClient_def
        codec_eval index_def url_String_examples)
  from 1 2 3 4 show ?thesis by simp
qed

section \<open>The authenticated URL\<close>

text \<open>
  Claim C4, as stated, fails: not every parameter of a path that parses is kept. For the
  path \<^verbatim>\<open>/organizations/find?term=Smith;Sons\<close> (the search path of the organization
  named \<^verbatim>\<open>Smith;Sons\<close>) and for the path \<^verbatim>\<open>/organizations/find?term=100%\<close> the URL
  returned is \<^verbatim>\<open>http://base/organizations/find?api_token=abc123\<close>: the parameter
  \<^verbatim>\<open>term\<close> is gone, because \<^verbatim>\<open>Query()\<close> skips a segment with a \<^verbatim>\<open>;\<close> and a
  segment that does not unescape.
\<close>

theorem parameters_dropped:
  "authenticatedURL (test_client Map.empty 0) ''/organizations/find?term=Smith;Sons''
     = Inr (base_URL ''/organizations/find'' ''api_token=abc123'') \<and>
   authenticatedURL (test_client Map.empty 0) ''/organizations/find?term=100%''
     = Inr (base_URL ''/organizations/find'' ''api_token=abc123'') \<and>
   url_String (base_URL ''/organizations/find'' ''api_token=abc123'')
     = ''http://base/organizations/find?api_token=abc123'' \<and>
   Values_Get (url_Query (base_URL ''/organizations/find'' ''api_token=abc123'')) ''term'' = []"
  by (simp add: dropped_eval Values_Get_def)


text \<open>
  Claim C4, amended. Whenever the URL parses, \<open>authenticatedURL\<close> returns a URL with
  the same head and fragment whose query, read from left to right, has its keys in
  ascending (byte-wise alphabetical) order, and in which every parameter that
  \<^verbatim>\<open>Query()\<close> of the library reads from the query that was there has the values it
  had, in their order; \<^verbatim>\<open>api_token\<close> has the token of the client as one more value.
  \<^verbatim>\<open>Query()\<close> reads every \<^verbatim>\<open>key=value\<close> that is escaped as the library escapes it,
  and skips a segment with a \<^verbatim>\<open>;\<close> or with a \<^verbatim>\<open>%\<close> that two hexadecimal digits do
  not follow; for a base URL without \<^verbatim>\<open>?\<close> and \<^verbatim>\<open>#\<close> the query that was there is
  the query string of the path. The result is a function of the client and the path
  alone: the one place where Go has a free choice, the order in which the entries of the
  map of values are visited, does not change what \<open>Values_Encode\<close> writes. For the
  base \<^verbatim>\<open>http://base\<close>, the token \<^verbatim>\<open>abc123\<close> and the path
  \<^verbatim>\<open>/organizations?term=paper\<close> the URL is
  \<^verbatim>\<open>http://base/organizations?api_token=abc123&term=paper\<close>.
\<close>

theorem authenticatedURL_query:
  "(url_Parse (BaseURL c @ path) = Inr u0 \<longrightarrow>
     (\<exists>u. authenticatedURL c path = Inr u \<and>
        Head u = Head u0 \<and> Fragment u = Fragment u0 \<and>
        sorted (map fst (query_pairs (RawQuery u))) \<and>
        (\<forall>k. Values_Get (url_Query u) k =
           Values_Get (url_Query u0) k @ (if k = ''api_token'' then [APIToken c] else [])))) \<and>
   (CHR ''?'' \<notin> set (BaseURL c) \<and> CHR ''#'' \<notin> set (BaseURL c) \<and>
    url_Parse (BaseURL c @ path) = Inr u0 \<longrightarrow>
      url_Query u0 = parseQuery [] (cut_after CHR ''?'' (cut_before CHR ''#'' path))) \<and>
   query_pairs (join_amp (map segment ps)) = ps \<and>
   (distinct (map fst m) \<and> distinct (map fst m') \<and> map_of m = map_of m' \<longrightarrow>
      Values_Encode m = Values_Encode m') \<and>
   map_sum id url_String
     (authenticatedURL
        \<lparr>APIToken = ''abc123'', BaseURL = ''http://base'', DefaultUserID = uid, httpClient = h\<rparr>
        ''/organizations?term=paper'')
     = Inr ''http://base/organizations?api_token=abc123&term=paper''"
proof (intro conjI impI)
  assume parsed: "url_Parse (BaseURL c @ path) = Inr u0"
  let ?u = "u0\<lparr>RawQuery :=
    Values_Encode (Values_Add (url_Query u0) ''api_token'' (APIToken c))\<rparr>"
  have "authenticatedURL c path = Inr ?u"
    using parsed by (rule authenticatedURL_parsed)
  moreover have "sorted (map fst (query_pairs (RawQuery ?u)))"
    by (simp add: query_pairs_Encode sorted_encoded_pairs)
  moreover have "\<forall>k. Values_Get (url_Query ?u) k =
      Values_Get (url_Query u0) k @ (if k = ''api_token'' then [APIToken c] else [])"
    by (intro allI url_Query_authenticated)
  ultimately show "\<exists>u. authenticatedURL c path = Inr u \<and>
        Head u = Head u0 \<and> Fragment u = Fragment u0 \<and>
        sorted (map fst (query_pairs (RawQuery u))) \<and>
        (\<forall>k. Values_Get (url_Query u) k =
           Values_Get (url_Query u0) k @ (if k = ''api_token'' then [APIToken c] else []))"
    by (intro exI [of _ ?u]) simp
next
  assume "CHR ''?'' \<notin> set (BaseURL c) \<and> CHR ''#'' \<notin> set (BaseURL c) \<and>
    url_Parse (BaseURL c @ path) = Inr u0"
  then show "url_Query u0 = parseQuery [] (cut_after CHR ''?'' (cut_before CHR ''#'' path))"
    by (intro url_Query_path [of "BaseURL c"]) simp_all
next
  show "query_pairs (join_amp (map segment ps)) = ps"
    by (rule query_pairs_join)
next
  assume "distinct (map fst m) \<and> distinct (map fst m') \<and> map_of m = map_of m'"
  then show "Values_Encode m = Values_Encode m'"
    by (intro Values_Encode_order_free) simp_all
next
  show "map_sum id url_String
     (authenticatedURL
        \<lparr>APIToken = ''abc123'', BaseURL = ''http://base'', DefaultUserID = uid, httpClient = h\<rparr>
        ''/organizations?term=paper'')
     = Inr ''http://base/organizations?api_token=abc123&term=paper''"
    by (simp add: url_eval)
qed

theorem authenticatedURL_query_witness:
  "(\<exists>u. authenticatedURL (test_client Map.empty 0) ''/organizations?term=paper'' = Inr u \<and>
      Head u = ''http://base/organizations'' \<and>
      sorted (map fst (query_pairs (RawQuery u))) \<and>
      Values_Get (url_Query u) ''term'' = [''paper''] \<and>
      Values_Get (url_Query u) ''api_token'' = [''abc123'']) \<and>
   url_Query paper_URL = parseQuery [] ''term=paper'' \<and>
   Values_Encode [(''b'', [''2'']), (''a'', [''1''])]
     = Values_Encode [(''a'', [''1'']), (''b'', [''2''])]"
proof (intro conjI)
  let ?c = "test_client Map.empty 0"
  note th = authenticatedURL_query [where c = ?c and path = "''/organizations?term=paper''"
      and ?u0.0 = paper_URL and m = "[(''b'', [''2'']), (''a'', [''1''])]"
      and m' = "[(''a'', [''1'']), (''b'', [''2''])]"]
  have parsed: "url_Parse (BaseURL ?c @ ''/organizations?term=paper'') = Inr paper_URL"
    by (rule url_Parse_examples)
  from th [THEN conjunct1] parsed
  obtain u where u: "authenticatedURL ?c ''/organizations?term=paper'' = Inr u"
    "Head u = Head paper_URL" "sorted (map fst (query_pairs (RawQuery u)))"
    "\<forall>k. Values_Get (url_Query u) k =
       Values_Get (url_Query paper_URL) k @ (if k = ''api_token'' then [APIToken ?c] else [])"
    by blast
  have "Values_Get (url_Query paper_URL) ''term'' = [''paper'']"
    and "Values_Get (url_Query paper_URL) ''api_token'' = []"
    by (simp_all add: url_Query_examples Values_Get_def)
  with u(4) have "Values_Get (url_Query u) ''term'' = [''paper'']"
    and "Values_Get (url_Query u) ''api_token'' = [''abc123'']"
    by (simp_all add: test_client_sel)
  moreover have "Head u = ''http://base/organizations''"
    by (simp add: u(2) paper_URL_def base_URL_def)
  ultimately show "\<exists>u. authenticatedURL ?c ''/organizations?term=paper'' = Inr u \<and>
      Head u = ''http://base/organizations'' \<and>
      sorted (map fst (query_pairs (RawQuery u))) \<and>
      Values_Get (url_Query u) ''term'' = [''paper''] \<and>
      Values_Get (url_Query u) ''api_token'' = [''abc123'']"
    using u(1,3) by blast
  have same: "map_of [(''b'', [''2'']), (''a'', [''1''])]
      = map_of [(''a'', [''1'']), (''b'', [''2''])]"
    by (auto simp: fun_eq_iff)
  from th [THEN conjunct2, THEN conjunct1] parsed
  have "url_Query paper_URL
      = parseQuery [] (cut_after CHR ''?'' (cut_before CHR ''#'' ''/organizations?term=paper''))"
    by (simp add: test_client_sel)
  then show "url_Query paper_URL = parseQuery [] ''term=paper''"
    by (simp add: cut_before_def cut_after_def)
  from th [THEN conjunct2, THEN conjunct2, THEN conjunct2, THEN conjunct1]
  show "Values_Encode [(''b'', [''2'']), (''a'', [''1''])]
     = Values_Encode [(''a'', [''1'']), (''b'', [''2''])]"
    using same by simp
qed

subsection \<open>A path that has a token already\<close>

text \<open>
  Claim C5, as stated, fails: for the path \<^verbatim>\<open>/organizations?api_token=old\<close> the URL
  returned has the two values \<^verbatim>\<open>old\<close> and \<^verbatim>\<open>abc123\<close> for \<^verbatim>\<open>api_token\<close>; the value
  that was there is not overwritten.
\<close>

theorem api_token_not_overwritten:
  "authenticatedURL (test_client Map.empty 0) ''/organizations?api_token=old''
     = Inr twice_token_URL \<and>
   url_String twice_token_URL = ''http://base/organizations?api_token=old&api_token=abc123'' \<and>
   Values_Get (url_Query twice_token_URL) ''api_token'' = [''old'', ''abc123'']"
  by (simp add: twice_token_eval url_Query_examples Values_Get_def)
    (simp add: url_String_def twice_token_URL_def base_URL_def)

text \<open>
  Claim C5, amended. \<^verbatim>\<open>Values.Add\<close> appends: in the URL returned, the values of
  \<^verbatim>\<open>api_token\<close> are the values that the query of the path had for it, in their order,
  followed by the token of the client. So when the path has a value for \<^verbatim>\<open>api_token\<close>
  already, the token of the client is the last of several values, not the only one.
\<close>

theorem api_token_appended:
  "url_Parse (BaseURL c @ path) = Inr u0 \<longrightarrow>
     (\<exists>u. authenticatedURL c path = Inr u \<and>
        Values_Get (url_Query u) ''api_token''
          = Values_Get (url_Query u0) ''api_token'' @ [APIToken c] \<and>
        (Values_Get (url_Query u0) ''api_token'' \<noteq> [] \<longrightarrow>
           Values_Get (url_Query u) ''api_token'' \<noteq> [APIToken c]))"
proof
  assume parsed: "url_Parse (BaseURL c @ path) = Inr u0"
  let ?u = "u0\<lparr>RawQuery :=
    Values_Encode (Values_Add (url_Query u0) ''api_token'' (APIToken c))\<rparr>"
  have "authenticatedURL c path = Inr ?u"
    using parsed by (rule authenticatedURL_parsed)
  moreover have "Values_Get (url_Query ?u) ''api_token''
      = Values_Get (url_Query u0) ''api_token'' @ [APIToken c]"
    using url_Query_authenticated [of u0 "APIToken c" "''api_token''"] by simp
  ultimately show "\<exists>u. authenticatedURL c path = Inr u \<and>
        Values_Get (url_Query u) ''api_token''
          = Values_Get (url_Query u0) ''api_token'' @ [APIToken c] \<and>
        (Values_Get (url_Query u0) ''api_token'' \<noteq> [] \<longrightarrow>
           Values_Get (url_Query u) ''api_token'' \<noteq> [APIToken c])"
    by (intro exI [of _ ?u]) simp
qed

theorem api_token_appended_witness:
  "\<exists>u. authenticatedURL (test_client Map.empty 0) ''/organizations?api_token=old'' = Inr u \<and>
     Values_Get (url_Query u) ''api_token'' = [''old'', ''abc123'']"
proof -
  let ?c = "test_client Map.empty 0"
  have parsed: "url_Parse (BaseURL ?c @ ''/organizations?api_token=old'') = Inr old_token_URL"
    by (rule url_Parse_examples)
  from api_token_appended [where c = ?c and path = "''/organizations?api_token=old''"
      and ?u0.0 = old_token_URL] parsed
  obtain u where "authenticatedURL ?c ''/organizations?api_token=old'' = Inr u"
    and "Values_Get (url_Query u) ''api_token''
          = Values_Get (url_Query old_token_URL) ''api_token'' @ [APIToken ?c]"
    by blast
  then show ?thesis
    by (simp add: url_Query_examples Values_Get_def test_client_sel)
qed

end
